theory Spec2Isabelle
  imports Main
begin

section \<open>JavaScript strings\<close>

text \<open>
  The linter (\<^verbatim>\<open>validators/cartridge-lint.js\<close>) reads every file as UTF-8 text. A text is
  modelled as the list of its UTF-8 bytes: every string operation the linter uses
  (splitting at a newline, \<^verbatim>\<open>startsWith\<close>, \<^verbatim>\<open>includes\<close>, cutting off a matched
  prefix, \<^verbatim>\<open>trim\<close>, joining) gives on the bytes the encoding of what it gives on the
  text.
\<close>

definition startsWith :: "string \<Rightarrow> string \<Rightarrow> bool" where
  "startsWith s p = (take (length p) s = p)"

definition endsWith :: "string \<Rightarrow> string \<Rightarrow> bool" where
  "endsWith s p = startsWith (rev s) (rev p)"

fun includes_str :: "string \<Rightarrow> string \<Rightarrow> bool" where
  "includes_str [] p = (p = [])"
| "includes_str (c # cs) p = (startsWith (c # cs) p \<or> includes_str cs p)"

text \<open>\<^verbatim>\<open>s.indexOf(p)\<close>; \<open>None\<close> stands for the result -1.\<close>

fun indexOf :: "string \<Rightarrow> string \<Rightarrow> nat option" where
  "indexOf [] p = (if p = [] then Some 0 else None)"
| "indexOf (c # cs) p =
     (if startsWith (c # cs) p then Some 0 else map_option Suc (indexOf cs p))"

text \<open>\<^verbatim>\<open>s.split(c)\<close> for a separator of one character: never the empty list.\<close>

fun split :: "char \<Rightarrow> string \<Rightarrow> string list" where
  "split c [] = [[]]"
| "split c (x # xs) =
     (if x = c then [] # split c xs
      else (case split c xs of [] \<Rightarrow> [[x]] | y # ys \<Rightarrow> (x # y) # ys))"

fun join :: "string \<Rightarrow> string list \<Rightarrow> string" where
  "join sep [] = []"
| "join sep [x] = x"
| "join sep (x # y # ys) = x @ sep @ join sep (y # ys)"

text \<open>
  \<^verbatim>\<open>trim\<close> removes the white space and line terminators of ECMAScript from both ends:
  tab, line feed, vertical tab, form feed, carriage return, space, and, as UTF-8
  sequences, U+00A0, U+1680, U+2000 to U+200A, U+2028, U+2029, U+202F, U+205F, U+3000
  and U+FEFF.
\<close>

definition white_space :: "string list" where
  "white_space =
     map (\<lambda>c. [c]) [CHR 0x09, CHR 0x0A, CHR 0x0B, CHR 0x0C, CHR 0x0D, CHR 0x20] @
     [[CHR 0xC2, CHR 0xA0], [CHR 0xE1, CHR 0x9A, CHR 0x80]] @
     map (\<lambda>c. [CHR 0xE2, CHR 0x80, c])
       [CHR 0x80, CHR 0x81, CHR 0x82, CHR 0x83, CHR 0x84, CHR 0x85, CHR 0x86, CHR 0x87,
        CHR 0x88, CHR 0x89, CHR 0x8A, CHR 0xA8, CHR 0xA9, CHR 0xAF] @
     [[CHR 0xE2, CHR 0x81, CHR 0x9F], [CHR 0xE3, CHR 0x80, CHR 0x80],
      [CHR 0xEF, CHR 0xBB, CHR 0xBF]]"

text \<open>The length of the white-space sequence a text starts with (0 when there is none).\<close>

definition leading_space :: "string list \<Rightarrow> string \<Rightarrow> nat" where
  "leading_space ws s = (case filter (startsWith s) ws of [] \<Rightarrow> 0 | w # _ \<Rightarrow> length w)"

fun trimStart_with :: "string list \<Rightarrow> string \<Rightarrow> string" where
  "trimStart_with ws [] = []"
| "trimStart_with ws (c # cs) =
     (case leading_space ws (c # cs) of
        0 \<Rightarrow> c # cs
      | Suc n \<Rightarrow> trimStart_with ws (drop n cs))"

definition trimStart :: "string \<Rightarrow> string" where
  "trimStart s = trimStart_with white_space s"

definition trimEnd :: "string \<Rightarrow> string" where
  "trimEnd s = rev (trimStart_with (map rev white_space) (rev s))"

definition trim :: "string \<Rightarrow> string" where
  "trim s = trimEnd (trimStart s)"

text \<open>The regular-expression classes \<^verbatim>\<open>\d\<close> and \<^verbatim>\<open>\w\<close>: ASCII only.\<close>

definition is_digit :: "char \<Rightarrow> bool" where
  "is_digit c = (c \<in> set ''0123456789'')"

definition is_word :: "char \<Rightarrow> bool" where
  "is_word c = (is_digit c \<or> c = CHR ''_''
     \<or> c \<in> set ''abcdefghijklmnopqrstuvwxyz'' \<or> c \<in> set ''ABCDEFGHIJKLMNOPQRSTUVWXYZ'')"

section \<open>JavaScript values\<close>

text \<open>
  What the YAML parser hands to the linter is a JavaScript value. A number is given by the
  text that \<^verbatim>\<open>String\<close> makes of it (\<open>1.0\<close> is the number \<open>JNum ''1''\<close>): the linter
  only tests numbers for truth and prints them. A mapping is the list of its own
  properties, none of which is named \<^verbatim>\<open>toString\<close> or \<^verbatim>\<open>valueOf\<close> (such a property would
  change how the mapping is printed). \<open>JOpaque\<close> is any other object, given by its
  text: a function or object inherited from \<^verbatim>\<open>Object.prototype\<close>, a \<^verbatim>\<open>Date\<close> made from a
  YAML timestamp.
\<close>

datatype jsval =
    JUndefined
  | JNull
  | JBool bool
  | JNum string
  | JStr string
  | JArr "jsval list"
  | JObj "(string \<times> jsval) list"
  | JOpaque string

text \<open>An exception is modelled by its \<^verbatim>\<open>message\<close>, the only part the linter reads.\<close>

type_synonym exn = string

fun truthy :: "jsval \<Rightarrow> bool" where
  "truthy JUndefined = False"
| "truthy JNull = False"
| "truthy (JBool b) = b"
| "truthy (JNum s) = (s \<noteq> ''0'' \<and> s \<noteq> ''NaN'')"
| "truthy (JStr s) = (s \<noteq> [])"
| "truthy (JArr xs) = True"
| "truthy (JObj ps) = True"
| "truthy (JOpaque s) = True"

text \<open>
  \<^verbatim>\<open>String(v)\<close>, which a template literal, a property key and \<^verbatim>\<open>RegExp.test\<close> apply to
  their argument. An array prints its elements separated by commas, null and undefined
  elements as nothing.
\<close>

fun toString :: "jsval \<Rightarrow> string" where
  "toString JUndefined = ''undefined''"
| "toString JNull = ''null''"
| "toString (JBool b) = (if b then ''true'' else ''false'')"
| "toString (JNum s) = s"
| "toString (JStr s) = s"
| "toString (JArr xs) =
     join '','' (map (\<lambda>x. if x = JUndefined \<or> x = JNull then [] else toString x) xs)"
| "toString (JObj ps) = ''[object Object]''"
| "toString (JOpaque s) = s"

text \<open>
  \<^verbatim>\<open>v.k\<close> for the property names the linter reads from a parsed document (\<^verbatim>\<open>cartridge\<close>,
  \<^verbatim>\<open>name\<close>, \<^verbatim>\<open>tier\<close>, \<^verbatim>\<open>stack\<close>, \<^verbatim>\<open>version\<close>, \<^verbatim>\<open>owner\<close>, \<^verbatim>\<open>status\<close>, \<^verbatim>\<open>forbidden\<close>,
  \<^verbatim>\<open>framework\<close>, \<^verbatim>\<open>language\<close>, \<^verbatim>\<open>orm\<close>, \<^verbatim>\<open>api\<close>): none of them is inherited, so only a
  mapping can have one. Reading a property of null or undefined throws.
\<close>

fun getProp :: "jsval \<Rightarrow> string \<Rightarrow> exn + jsval" where
  "getProp JUndefined k = Inl (''Cannot read properties of undefined (reading '' @ [CHR 0x27] @ k @ [CHR 0x27] @ '')'')"
| "getProp JNull k = Inl (''Cannot read properties of null (reading '' @ [CHR 0x27] @ k @ [CHR 0x27] @ '')'')"
| "getProp (JObj ps) k = Inr (case map_of ps k of None \<Rightarrow> JUndefined | Some v \<Rightarrow> v)"
| "getProp v k = Inr JUndefined"

text \<open>The same for a value known to be an object (after the \<^verbatim>\<open>in\<close> test, or truthy).\<close>

definition field_of :: "jsval \<Rightarrow> string \<Rightarrow> jsval" where
  "field_of v k = (case getProp v k of Inl e \<Rightarrow> JUndefined | Inr x \<Rightarrow> x)"

text \<open>
  \<^verbatim>\<open>k in v\<close>, for the names of the required fields (none is inherited): it throws unless
  \<open>v\<close> is an object.
\<close>

fun hasProp :: "string \<Rightarrow> jsval \<Rightarrow> exn + bool" where
  "hasProp k (JObj ps) = Inr (k \<in> fst ` set ps)"
| "hasProp k (JArr xs) = Inr False"
| "hasProp k (JOpaque s) = Inr False"
| "hasProp k v =
     Inl (''Cannot use '' @ [CHR 0x27] @ ''in'' @ [CHR 0x27] @ '' operator to search for ''
          @ [CHR 0x27] @ k @ [CHR 0x27] @ '' in '' @ toString v)"

text \<open>\<^verbatim>\<open>xs.includes(v)\<close> for a list of string constants.\<close>

fun includes_val :: "string list \<Rightarrow> jsval \<Rightarrow> bool" where
  "includes_val xs (JStr s) = (s \<in> set xs)"
| "includes_val xs v = False"

section \<open>The linter's state\<close>

text \<open>
  \<^verbatim>\<open>this.errors\<close> and \<^verbatim>\<open>this.warnings\<close> are arrays of \<^verbatim>\<open>{ message, line }\<close>; \<^verbatim>\<open>this.stacks\<close>
  is a plain object used as the registry. Its own properties are kept in the order
  \<^verbatim>\<open>Object.keys\<close> lists them; \<open>stacks_proto\<close> is \<open>None\<close> while its prototype is
  \<^verbatim>\<open>Object.prototype\<close>, and the own properties of the object that replaced it otherwise.
\<close>

record finding =
  message :: string
  line :: "nat option"

record linter =
  errors :: "finding list"
  warnings :: "finding list"
  stacks :: "(string \<times> jsval) list"
  stacks_proto :: "(string \<times> jsval) list option"

text \<open>
  What the linter reads from outside: the YAML parser (\<^verbatim>\<open>yaml.load\<close> of js-yaml, which
  returns a value or throws), the \<^verbatim>\<open>RegExp\<close> constructor for a pattern built at run time
  (source and flags give a syntax error or the \<^verbatim>\<open>test\<close> function of the new expression),
  the stacks directory (\<open>None\<close> when it does not exist; otherwise each entry with what
  reading it gives) and the files that exist, by path.
\<close>

record env =
  yaml_load :: "string \<Rightarrow> exn + jsval"
  regexp :: "string \<Rightarrow> string \<Rightarrow> exn + (string \<Rightarrow> bool)"
  stacks_dir :: "(string \<times> (exn + string)) list option"
  files :: "string \<Rightarrow> string option"

definition REQUIRED_SECTIONS :: "string list" where
  "REQUIRED_SECTIONS =
     [''Purpose'', ''Stack Contract'', ''Development Style'', ''Inputs'', ''Outputs'',
      ''Guardrails'', ''Steps the Agent Must Follow'', ''Quality Gates'',
      ''Integration Points'', ''Examples'', ''Version History'']"

definition VALID_TIERS :: "string list" where
  "VALID_TIERS = [''prototype'', ''productizing'', ''production'']"

definition VALID_STATUSES :: "string list" where
  "VALID_STATUSES = [''draft'', ''stable'', ''deprecated'']"

definition error :: "linter \<Rightarrow> string \<Rightarrow> linter" where
  "error L msg = L\<lparr>errors := errors L @ [\<lparr>message = msg, line = None\<rparr>]\<rparr>"

definition warning :: "linter \<Rightarrow> string \<Rightarrow> linter" where
  "warning L msg = L\<lparr>warnings := warnings L @ [\<lparr>message = msg, line = None\<rparr>]\<rparr>"

subsection \<open>The registry object\<close>

text \<open>The property names every plain object inherits from \<^verbatim>\<open>Object.prototype\<close>.\<close>

definition object_prototype_names :: "string list" where
  "object_prototype_names =
     [''constructor'', ''__defineGetter__'', ''__defineSetter__'', ''hasOwnProperty'',
      ''__lookupGetter__'', ''__lookupSetter__'', ''isPrototypeOf'',
      ''propertyIsEnumerable'', ''toString'', ''valueOf'', ''__proto__'',
      ''toLocaleString'']"

definition inherited :: "string \<Rightarrow> jsval" where
  "inherited k = (if k \<in> set object_prototype_names then JOpaque k else JUndefined)"

text \<open>\<^verbatim>\<open>this.stacks[k]\<close>: an own property, else whatever the prototype chain gives.\<close>

definition stacks_get :: "linter \<Rightarrow> string \<Rightarrow> jsval" where
  "stacks_get L k =
     (case map_of (stacks L) k of
        Some v \<Rightarrow> v
      | None \<Rightarrow>
          (case stacks_proto L of
             None \<Rightarrow> inherited k
           | Some ps \<Rightarrow>
               (case map_of ps k of
                  Some v \<Rightarrow> v
                | None \<Rightarrow> if k = ''__proto__'' then JObj ps else inherited k)))"

text \<open>
  A key that is an array index (the canonical text of an integer below \<open>2^32 - 1\<close>) is
  listed before every other key, in ascending order; the other keys follow in the order
  of their creation.
\<close>

definition array_index :: "string \<Rightarrow> nat option" where
  "array_index k =
     (let n = foldl (\<lambda>n c. 10 * n + (of_char c - 48)) 0 k
      in if k \<noteq> [] \<and> list_all is_digit k \<and> (k = ''0'' \<or> hd k \<noteq> CHR ''0'') \<and> n < 4294967295
         then Some n else None)"

definition index_below :: "nat \<Rightarrow> string \<times> jsval \<Rightarrow> bool" where
  "index_below n p = (case array_index (fst p) of None \<Rightarrow> False | Some m \<Rightarrow> m < n)"

definition put_own :: "(string \<times> jsval) list \<Rightarrow> string \<Rightarrow> jsval \<Rightarrow> (string \<times> jsval) list" where
  "put_own ps k v =
     (if k \<in> fst ` set ps then map (\<lambda>p. if fst p = k then (k, v) else p) ps
      else case array_index k of
             None \<Rightarrow> ps @ [(k, v)]
           | Some n \<Rightarrow> takeWhile (index_below n) ps @ [(k, v)] @ dropWhile (index_below n) ps)"

text \<open>
  \<^verbatim>\<open>this.stacks[k] = v\<close>. The key \<^verbatim>\<open>__proto__\<close> replaces the prototype instead of making a
  property; \<open>v\<close> is then the profile whose \<^verbatim>\<open>name\<close> is that key, a mapping.
\<close>

definition stacks_set :: "linter \<Rightarrow> string \<Rightarrow> jsval \<Rightarrow> linter" where
  "stacks_set L k v =
     (if k = ''__proto__''
      then (case v of JObj ps \<Rightarrow> L\<lparr>stacks_proto := Some ps\<rparr> | _ \<Rightarrow> L)
      else L\<lparr>stacks := put_own (stacks L) k v\<rparr>)"

definition Object_keys :: "linter \<Rightarrow> string list" where
  "Object_keys L = map fst (stacks L)"

subsection \<open>\<^verbatim>\<open>loadStacks\<close> and the constructor\<close>

definition load_stack :: "env \<Rightarrow> linter \<Rightarrow> string \<times> (exn + string) \<Rightarrow> linter" where
  "load_stack E L entry =
     (let failed = (\<lambda>e. error L (''Failed to load stack '' @ fst entry @ '': '' @ e))
      in case snd entry of
           Inl e \<Rightarrow> failed e
         | Inr content \<Rightarrow>
             (case yaml_load E content of
                Inl e \<Rightarrow> failed e
              | Inr stack \<Rightarrow>
                  (case getProp stack ''name'' of
                     Inl e \<Rightarrow> failed e
                   | Inr n \<Rightarrow> stacks_set L (toString n) stack)))"

definition loadStacks :: "env \<Rightarrow> linter \<Rightarrow> linter" where
  "loadStacks E L =
     (case stacks_dir E of
        None \<Rightarrow> error L ''Stacks directory not found''
      | Some entries \<Rightarrow>
          foldl (load_stack E) L (filter (\<lambda>entry. endsWith (fst entry) ''.yml'') entries))"

definition new_CartridgeLinter :: "env \<Rightarrow> linter" where
  "new_CartridgeLinter E =
     loadStacks E \<lparr>errors = [], warnings = [], stacks = [], stacks_proto = None\<rparr>"

subsection \<open>\<^verbatim>\<open>validateFrontMatter\<close>\<close>

text \<open>\<^verbatim>\<open>/^\d+\.\d+\.\d+/.test(s)\<close>.\<close>

definition semver_prefix :: "string \<Rightarrow> bool" where
  "semver_prefix s =
     (let r1 = dropWhile is_digit s;
          r2 = dropWhile is_digit (drop 1 r1)
      in takeWhile is_digit s \<noteq> [] \<and> startsWith r1 ''.''
         \<and> takeWhile is_digit (drop 1 r1) \<noteq> [] \<and> startsWith r2 ''.''
         \<and> takeWhile is_digit (drop 1 r2) \<noteq> [])"

definition requiredFields :: "string list" where
  "requiredFields =
     [''cartridge'', ''name'', ''tier'', ''stack'', ''version'', ''owner'', ''status'']"

text \<open>
  A function that can throw returns the state it reached together with the exception or
  the value. The \<^verbatim>\<open>in\<close> test of the first loop throws on a header that is no object;
  \<^verbatim>\<open>startsWith\<close> is no function of an owner that is truthy and no string.
\<close>

definition validateFrontMatter :: "linter \<Rightarrow> jsval \<Rightarrow> linter \<times> (exn + jsval)" where
  "validateFrontMatter L frontMatter =
     (case hasProp ''cartridge'' frontMatter of
        Inl e \<Rightarrow> (L, Inl e)
      | Inr _ \<Rightarrow>
          (let L1 = foldl (\<lambda>L field. if hasProp field frontMatter = Inr False
                                      then error L (''Missing required front matter field: '' @ field)
                                      else L) L requiredFields;
               L2 = (if field_of frontMatter ''cartridge'' \<noteq> JBool True
                     then error L1 ''Front matter cartridge field must be true'' else L1);
               tier = field_of frontMatter ''tier'';
               L3 = (if truthy tier \<and> \<not> includes_val VALID_TIERS tier
                     then error L2 (''Invalid tier: '' @ toString tier @ ''. Must be one of: ''
                                    @ join '', '' VALID_TIERS)
                     else L2);
               stack = field_of frontMatter ''stack'';
               L4 = (if truthy stack \<and> \<not> truthy (stacks_get L3 (toString stack))
                     then error L3 (''Unknown stack: '' @ toString stack @ ''. Available stacks: ''
                                    @ join '', '' (Object_keys L3))
                     else L3);
               version = field_of frontMatter ''version'';
               L5 = (if truthy version \<and> \<not> semver_prefix (toString version)
                     then error L4 (''Invalid version format: '' @ toString version
                                    @ ''. Use semver (e.g., 1.0.0)'')
                     else L4);
               status = field_of frontMatter ''status'';
               L6 = (if truthy status \<and> \<not> includes_val VALID_STATUSES status
                     then error L5 (''Invalid status: '' @ toString status @ ''. Must be one of: ''
                                    @ join '', '' VALID_STATUSES)
                     else L5);
               owner = field_of frontMatter ''owner''
           in if truthy owner
              then (case owner of
                      JStr s \<Rightarrow>
                        (if \<not> startsWith s ''@''
                         then warning L6 (''Owner should start with @ (e.g., @username): '' @ s)
                         else L6, Inr stack)
                    | _ \<Rightarrow> (L6, Inl ''frontMatter.owner.startsWith is not a function''))
              else (L6, Inr stack)))"

subsection \<open>\<^verbatim>\<open>validateSections\<close>\<close>

definition foundSections :: "string \<Rightarrow> string list" where
  "foundSections content =
     map (\<lambda>l. trim (drop 3 l))
       (filter (\<lambda>l. startsWith l ''## '') (split CHR ''\<newline>'' content))"

text \<open>\<^verbatim>\<open>xs.findIndex(P)\<close>: -1 when no element satisfies \<open>P\<close>.\<close>

fun findIndex :: "('a \<Rightarrow> bool) \<Rightarrow> 'a list \<Rightarrow> int" where
  "findIndex P [] = - 1"
| "findIndex P (x # xs) =
     (if P x then 0 else (let i = findIndex P xs in if i < 0 then - 1 else i + 1))"

definition expectedIndex :: "string \<Rightarrow> int" where
  "expectedIndex section = findIndex (\<lambda>rs. startsWith section rs) REQUIRED_SECTIONS"

definition order_message :: "string \<Rightarrow> string" where
  "order_message section =
     ''Section '' @ [CHR 0x22] @ section @ [CHR 0x22] @ '' is out of order. Expected order: ''
     @ join '', '' REQUIRED_SECTIONS"

text \<open>The loop over \<^verbatim>\<open>orderedSections\<close>, with the variable \<^verbatim>\<open>lastIndex\<close>.\<close>

fun order_loop :: "linter \<Rightarrow> int \<Rightarrow> string list \<Rightarrow> linter" where
  "order_loop L lastIndex [] = L"
| "order_loop L lastIndex (section # rest) =
     order_loop
       (if expectedIndex section < lastIndex then warning L (order_message section) else L)
       (expectedIndex section) rest"

definition orderedSections :: "string \<Rightarrow> string list" where
  "orderedSections content =
     filter (\<lambda>s. list_ex (\<lambda>rs. startsWith s rs) REQUIRED_SECTIONS) (foundSections content)"

definition validateSections :: "linter \<Rightarrow> string \<Rightarrow> linter" where
  "validateSections L content =
     (let L1 = foldl (\<lambda>L section.
                   if \<not> list_ex (\<lambda>s. startsWith s section) (foundSections content)
                   then error L (''Missing required section: ## '' @ section) else L)
                 L REQUIRED_SECTIONS
      in order_loop L1 (- 1) (orderedSections content))"

subsection \<open>\<^verbatim>\<open>extractSection\<close>\<close>

fun extract_loop :: "string \<Rightarrow> bool \<Rightarrow> string list \<Rightarrow> string list \<Rightarrow> string list" where
  "extract_loop sectionName inSection sectionContent [] = sectionContent"
| "extract_loop sectionName inSection sectionContent (l # rest) =
     (if startsWith l ''## '' \<and> includes_str l sectionName
      then extract_loop sectionName True sectionContent rest
      else if inSection \<and> startsWith l ''## '' then sectionContent
      else if inSection then extract_loop sectionName inSection (sectionContent @ [l]) rest
      else extract_loop sectionName inSection sectionContent rest)"

definition extractSection :: "string \<Rightarrow> string \<Rightarrow> string" where
  "extractSection content sectionName =
     join ''\<newline>'' (extract_loop sectionName False [] (split CHR ''\<newline>'' content))"

subsection \<open>\<^verbatim>\<open>validateQualityGates\<close> and \<^verbatim>\<open>validateExamples\<close>\<close>

text \<open>
  \<^verbatim>\<open>tierLine.split(':')[1].trim()\<close>: a line that includes \<^verbatim>\<open>tier:\<close> always has the second
  piece; without it, \<^verbatim>\<open>trim\<close> would be read from undefined.
\<close>

definition validateQualityGates :: "linter \<Rightarrow> string \<Rightarrow> linter \<times> (exn + unit)" where
  "validateQualityGates L content =
     (let qualityGatesSection = extractSection content ''Quality Gates''
      in if qualityGatesSection = [] then (L, Inr ())
         else
           (let L1 = (if \<not> includes_str qualityGatesSection ''```bash''
                         \<and> \<not> includes_str qualityGatesSection ''```sh''
                      then error L ''Quality Gates section must include runnable bash commands''
                      else L)
            in case find (\<lambda>l. includes_str l ''tier:'') (split CHR ''\<newline>'' content) of
                 None \<Rightarrow> (L1, Inr ())
               | Some tierLine \<Rightarrow>
                   (case split CHR '':'' tierLine of
                      _ # piece # _ \<Rightarrow>
                        (let tier = trim piece
                         in if tier = ''productizing'' \<or> tier = ''production''
                            then (foldl (\<lambda>L cmd.
                                     if \<not> includes_str qualityGatesSection cmd
                                     then warning L (''Expected command containing '' @ [CHR 0x22]
                                            @ cmd @ [CHR 0x22] @ '' in Quality Gates for ''
                                            @ tier @ '' tier'')
                                     else L) L1 [''lint'', ''typecheck'', ''test''], Inr ())
                            else (L1, Inr ()))
                    | _ \<Rightarrow> (L1, Inl (''Cannot read properties of undefined (reading ''
                             @ [CHR 0x27] @ ''trim'' @ [CHR 0x27] @ '')'')))))"

text \<open>
  The loop \<^verbatim>\<open>while ((match = /```(\w+)?/g.exec(s)) !== null)\<close>: one entry for every match,
  from left to right, telling whether the group \<^verbatim>\<open>match[1]\<close> is missing; the search goes
  on after the matched text.
\<close>

function fence_matches :: "string \<Rightarrow> bool list" where
  "fence_matches [] = []"
| "fence_matches (c # cs) =
     (if startsWith (c # cs) ''```''
      then (takeWhile is_word (drop 2 cs) = []) # fence_matches (dropWhile is_word (drop 2 cs))
      else fence_matches cs)"
  by pat_completeness auto
termination
proof (relation "measure length")
  fix c :: char and cs :: string
  have "length (dropWhile is_word (drop 2 cs)) \<le> length (drop 2 cs)"
    by (rule length_dropWhile_le)
  then show "(dropWhile is_word (drop 2 cs), c # cs) \<in> measure length"
    by simp
qed simp_all

definition untagged_message :: string where
  "untagged_message = ''Code blocks in Examples should specify a language (e.g., ```typescript)''"

definition validateExamples :: "linter \<Rightarrow> string \<Rightarrow> linter" where
  "validateExamples L content =
     (let examplesSection = extractSection content ''Examples''
      in if examplesSection = [] then L
         else
           (let L1 = (if \<not> includes_str examplesSection ''```''
                      then error L ''Examples section must include code blocks'' else L)
            in foldl (\<lambda>L untagged.
                  if untagged then warning L untagged_message else L)
                L1 (fence_matches examplesSection)))"

subsection \<open>\<^verbatim>\<open>validateStackCompliance\<close>\<close>

text \<open>
  The three expressions written out in the source are matched directly. With the flag
  \<^verbatim>\<open>i\<close> an ASCII letter of the pattern matches both of its cases and nothing else (a
  character above U+007F never folds onto an ASCII one); \<^verbatim>\<open>.\<close> matches anything but a
  line terminator (line feed, carriage return, U+2028, U+2029).
\<close>

definition lower :: "char \<Rightarrow> char" where
  "lower c = (if c \<in> set ''ABCDEFGHIJKLMNOPQRSTUVWXYZ'' then char_of (of_char c + (32::nat)) else c)"

definition includes_ci :: "string \<Rightarrow> string \<Rightarrow> bool" where
  "includes_ci s p = includes_str (map lower s) (map lower p)"

fun regexp_lines :: "string \<Rightarrow> string list" where
  "regexp_lines [] = [[]]"
| "regexp_lines (c # cs) =
     (if c = CHR 0x0A \<or> c = CHR 0x0D then [] # regexp_lines cs
      else if startsWith (c # cs) [CHR 0xE2, CHR 0x80, CHR 0xA8]
              \<or> startsWith (c # cs) [CHR 0xE2, CHR 0x80, CHR 0xA9]
           then [] # regexp_lines (drop 2 cs)
      else (case regexp_lines cs of [] \<Rightarrow> [[c]] | y # ys \<Rightarrow> (c # y) # ys))"

text \<open>\<^verbatim>\<open>/a.*b/i.test(s)\<close> for literal ASCII texts \<open>a\<close> and \<open>b\<close>.\<close>

definition dot_star_ci :: "string \<Rightarrow> string \<Rightarrow> string \<Rightarrow> bool" where
  "dot_star_ci s a b =
     list_ex (\<lambda>l. case indexOf (map lower l) (map lower a) of
                     None \<Rightarrow> False
                   | Some i \<Rightarrow> includes_ci (drop (i + length a) l) b)
       (regexp_lines s)"

definition vue_pattern :: "string \<Rightarrow> bool" where
  "vue_pattern content = (includes_ci content ''new Vue('' \<or> includes_ci content ''createApp('')"

definition svelte_pattern :: "string \<Rightarrow> bool" where
  "svelte_pattern content =
     (dot_star_ci content ''<script'' (''lang='' @ [CHR 0x22] @ ''ts'' @ [CHR 0x22] @ ''>'')
      \<or> includes_ci content ''.svelte'')"

definition redux_pattern :: "string \<Rightarrow> bool" where
  "redux_pattern content =
     (includes_ci content ''createStore'' \<or> includes_ci content ''useDispatch''
      \<or> includes_ci content ''useSelector'')"

text \<open>The sources of the three patterns built from a forbidden term.\<close>

definition quote_class :: string where
  "quote_class = ''['' @ [CHR 0x27, CHR 0x22, CHR 0x60] @ '']''"

definition forbidden_patterns :: "string \<Rightarrow> string list" where
  "forbidden_patterns t =
     [''import.*from.*'' @ quote_class @ ''.*'' @ t @ ''.*'' @ quote_class,
      ''require'' @ [CHR 0x5C] @ ''(.*'' @ quote_class @ ''.*'' @ t @ ''.*'' @ quote_class
        @ ''.*'' @ [CHR 0x5C] @ '')'',
      ''from.*'' @ quote_class @ ''.*'' @ t @ ''.*'' @ quote_class]"

text \<open>\<^verbatim>\<open>new RegExp(source, flags)\<close> for each source in turn: the first error, or all tests.\<close>

fun new_RegExps :: "env \<Rightarrow> string list \<Rightarrow> string \<Rightarrow> exn + (string \<Rightarrow> bool) list" where
  "new_RegExps E [] flags = Inr []"
| "new_RegExps E (src # srcs) flags =
     (case regexp E src flags of
        Inl e \<Rightarrow> Inl e
      | Inr r \<Rightarrow> (case new_RegExps E srcs flags of Inl e \<Rightarrow> Inl e | Inr rs \<Rightarrow> Inr (r # rs)))"

definition check_term :: "env \<Rightarrow> string \<Rightarrow> string \<Rightarrow> linter \<Rightarrow> jsval \<Rightarrow> linter \<times> (exn + unit)" where
  "check_term E content stackName L t =
     (case new_RegExps E (forbidden_patterns (toString t)) ''gi'' of
        Inl e \<Rightarrow> (L, Inl e)
      | Inr patterns \<Rightarrow>
          (let quoted = (\<lambda>x. [CHR 0x22] @ x @ [CHR 0x22]);
               L1 = foldl (\<lambda>L pattern.
                      if pattern content
                      then error L (''Forbidden technology '' @ quoted (toString t)
                             @ '' detected in examples for stack '' @ quoted stackName)
                      else L) L patterns;
               L2 = (if t = JStr ''vue'' \<and> vue_pattern content
                     then error L1 (''Vue.js code detected but forbidden in stack '' @ quoted stackName)
                     else L1);
               L3 = (if t = JStr ''svelte'' \<and> svelte_pattern content
                     then error L2 (''Svelte code detected but forbidden in stack '' @ quoted stackName)
                     else L2);
               L4 = (if t = JStr ''redux'' \<and> redux_pattern content
                     then error L3 (''Redux code detected but forbidden in stack '' @ quoted stackName)
                     else L3)
           in (L4, Inr ())))"

definition check_tech :: "env \<Rightarrow> string \<Rightarrow> linter \<Rightarrow> jsval \<Rightarrow> linter \<times> (exn + unit)" where
  "check_tech E content L tech =
     (let techName = (case tech of
                        JStr s \<Rightarrow> (case split CHR ''@'' s of [] \<Rightarrow> JUndefined | x # _ \<Rightarrow> JStr x)
                      | _ \<Rightarrow> tech)
      in case regexp E (toString techName) ''i'' of
           Inl e \<Rightarrow> (L, Inl e)
         | Inr techRegex \<Rightarrow>
             (if \<not> techRegex content
              then warning L (''Expected technology '' @ [CHR 0x22] @ toString techName
                     @ [CHR 0x22] @ '' not mentioned in cartridge content'')
              else L, Inr ()))"

text \<open>A \<^verbatim>\<open>for\<close> loop whose body can throw: it stops at the first exception.\<close>

fun for_each :: "(linter \<Rightarrow> 'a \<Rightarrow> linter \<times> (exn + unit)) \<Rightarrow> linter \<Rightarrow> 'a list \<Rightarrow> linter \<times> (exn + unit)" where
  "for_each body L [] = (L, Inr ())"
| "for_each body L (x # xs) =
     (case body L x of (L', Inl e) \<Rightarrow> (L', Inl e) | (L', Inr _) \<Rightarrow> for_each body L' xs)"

text \<open>
  \<^verbatim>\<open>for (const term of forbidden)\<close>: an array gives its elements, a string its characters
  (code points, here UTF-8 sequences); anything else is not iterable.
\<close>

definition is_continuation :: "char \<Rightarrow> bool" where
  "is_continuation c = (128 \<le> (of_char c :: nat) \<and> (of_char c :: nat) < 192)"

function code_points :: "string \<Rightarrow> string list" where
  "code_points [] = []"
| "code_points (c # cs) =
     (c # takeWhile is_continuation cs) # code_points (dropWhile is_continuation cs)"
  by pat_completeness auto
termination
proof (relation "measure length")
  fix c :: char and cs :: string
  have "length (dropWhile is_continuation cs) \<le> length cs"
    by (rule length_dropWhile_le)
  then show "(dropWhile is_continuation cs, c # cs) \<in> measure length"
    by simp
qed simp

fun iterate :: "jsval \<Rightarrow> exn + jsval list" where
  "iterate (JArr xs) = Inr xs"
| "iterate (JStr s) = Inr (map JStr (code_points s))"
| "iterate v = Inl ''forbidden is not iterable''"

definition validateStackCompliance :: "env \<Rightarrow> linter \<Rightarrow> string \<Rightarrow> jsval \<Rightarrow> linter \<times> (exn + unit)" where
  "validateStackCompliance E L content stackName =
     (if \<not> truthy stackName \<or> \<not> truthy (stacks_get L (toString stackName)) then (L, Inr ())
      else
        (let stack = stacks_get L (toString stackName);
             forbidden = (if truthy (field_of stack ''forbidden'')
                          then field_of stack ''forbidden'' else JArr [])
         in case iterate forbidden of
              Inl e \<Rightarrow> (L, Inl e)
            | Inr terms \<Rightarrow>
                (case for_each (check_term E content (toString stackName)) L terms of
                   (L1, Inl e) \<Rightarrow> (L1, Inl e)
                 | (L1, Inr _) \<Rightarrow>
                     for_each (check_tech E content) L1
                       (filter truthy
                          [field_of stack ''framework'', field_of stack ''language'',
                           field_of stack ''orm'', field_of stack ''api'']))))"

subsection \<open>\<^verbatim>\<open>lint\<close> and \<^verbatim>\<open>report\<close>\<close>

text \<open>
  \<^verbatim>\<open>content.match(/^---\n([\s\S]*?)\n---/)\<close>: the text must start with the marker line; the
  lazy group ends at the first line feed followed by three dashes. The result is the group
  and the length of the whole match.
\<close>

definition frontMatterMatch :: "string \<Rightarrow> (string \<times> nat) option" where
  "frontMatterMatch content =
     (if startsWith content ''---\<newline>''
      then (case indexOf (drop 4 content) ''\<newline>---'' of
              None \<Rightarrow> None
            | Some i \<Rightarrow> Some (take i (drop 4 content), 4 + i + 4))
      else None)"

text \<open>
  \<^verbatim>\<open>report\<close> prints the findings and, when there is an error, ends the process with
  \<^verbatim>\<open>process.exit(1)\<close> instead of returning. The printing is not modelled.
\<close>

datatype report = Report (valid: bool) (report_errors: "finding list") (report_warnings: "finding list")

datatype 'a completion = Returns 'a | ProcessExit nat

definition report :: "linter \<Rightarrow> report completion" where
  "report L =
     (let hasErrors = (errors L \<noteq> [])
      in if hasErrors then ProcessExit 1
         else Returns (Report (\<not> hasErrors) (errors L) (warnings L)))"

text \<open>The body of the \<^verbatim>\<open>try\<close> block of \<^verbatim>\<open>lint\<close>.\<close>

definition lint_try :: "env \<Rightarrow> linter \<Rightarrow> string \<Rightarrow> string \<Rightarrow> linter \<times> (exn + unit)" where
  "lint_try E L header bodyContent =
     (case yaml_load E header of
        Inl e \<Rightarrow> (L, Inl e)
      | Inr frontMatter \<Rightarrow>
          (case validateFrontMatter L frontMatter of
             (L1, Inl e) \<Rightarrow> (L1, Inl e)
           | (L1, Inr stackName) \<Rightarrow>
               (case validateStackCompliance E (validateSections L1 bodyContent) bodyContent stackName of
                  (L2, Inl e) \<Rightarrow> (L2, Inl e)
                | (L2, Inr _) \<Rightarrow>
                    (case validateQualityGates L2 bodyContent of
                       (L3, Inl e) \<Rightarrow> (L3, Inl e)
                     | (L3, Inr _) \<Rightarrow> (validateExamples L3 bodyContent, Inr ())))))"

text \<open>
  The state the checks of \<^verbatim>\<open>lint\<close> leave, before \<^verbatim>\<open>report\<close> is called; a file that cannot
  be read although it exists is not modelled.
\<close>

definition lint_checks :: "env \<Rightarrow> linter \<Rightarrow> string \<Rightarrow> linter" where
  "lint_checks E L filePath =
     (case files E filePath of
        None \<Rightarrow> error L (''File not found: '' @ filePath)
      | Some content \<Rightarrow>
          (case frontMatterMatch content of
             None \<Rightarrow> error L ''Missing front matter''
           | Some (header, matched) \<Rightarrow>
               (case lint_try E L header (drop matched content) of
                  (L1, Inl e) \<Rightarrow> error L1 (''Invalid YAML in front matter: '' @ e)
                | (L1, Inr _) \<Rightarrow> L1)))"

text \<open>\<^verbatim>\<open>lint\<close>: the linter after the call, and how the call ended.\<close>

definition lint :: "env \<Rightarrow> linter \<Rightarrow> string \<Rightarrow> linter \<times> report completion" where
  "lint E L filePath = (lint_checks E L filePath, report (lint_checks E L filePath))"

section \<open>Reference descriptions\<close>

text \<open>
  Two descriptions of the sections that get an order Warning, both over the filtered
  list. \<open>backward_steps\<close> lists every section whose expected index is below that of the
  section just before it. \<open>running_maximum_flags\<close> follows the words of the
  specification: every section whose expected index is below the maximum of the expected
  indices seen so far.
\<close>

definition backward_steps :: "string list \<Rightarrow> string list" where
  "backward_steps xs =
     map snd (filter (\<lambda>(p, s). expectedIndex s < expectedIndex p) (zip xs (tl xs)))"

fun running_maximum_flags :: "int \<Rightarrow> string list \<Rightarrow> string list" where
  "running_maximum_flags m [] = []"
| "running_maximum_flags m (s # ss) =
     (if expectedIndex s < m then [s] else [])
     @ running_maximum_flags (max m (expectedIndex s)) ss"

text \<open>
  The linter with further findings in front of its own: what a linter that has already
  recorded \<open>es\<close> and \<open>ws\<close> looks like.
\<close>

definition prepend :: "finding list \<Rightarrow> finding list \<Rightarrow> linter \<Rightarrow> linter" where
  "prepend es ws L = L\<lparr>errors := es @ errors L, warnings := ws @ warnings L\<rparr>"

text \<open>
  What a stack file declares: the identifier under \<^verbatim>\<open>name\<close> and the profile, for an entry
  of the stacks directory that can be read and parses to a mapping with a text as name.
\<close>

definition declared :: "env \<Rightarrow> string \<times> (exn + string) \<Rightarrow> (string \<times> jsval) option" where
  "declared E entry =
     (case snd entry of
        Inl e \<Rightarrow> None
      | Inr content \<Rightarrow>
          (case yaml_load E content of
             Inr (JObj ps) \<Rightarrow>
               (case map_of ps ''name'' of Some (JStr n) \<Rightarrow> Some (n, JObj ps) | _ \<Rightarrow> None)
           | _ \<Rightarrow> None))"

definition declarations :: "env \<Rightarrow> (string \<times> (exn + string)) list \<Rightarrow> (string \<times> jsval) list" where
  "declarations E entries = List.map_filter (declared E) entries"

section \<open>Example documents\<close>

text \<open>
  A registry of one profile and small cartridges for it. \<open>example_document tier stack\<close>
  has a complete header and the eleven required sections in their order; its Quality
  Gates section holds one \<^verbatim>\<open>bash\<close> block that runs a build, its Examples section one
  fenced block without a language.
\<close>

definition example_profile :: jsval where
  "example_profile =
     JObj [(''name'', JStr ''next-react-trpc-prisma''), (''framework'', JStr ''next@15''),
           (''language'', JStr ''typescript''), (''forbidden'', JArr [JStr ''vue''])]"

definition example_header :: "string \<Rightarrow> string \<Rightarrow> string" where
  "example_header tier stack =
     ''cartridge: true\<newline>name: Demo\<newline>tier: '' @ tier @ ''\<newline>stack: '' @ stack
     @ ''\<newline>version: 1.0.0\<newline>owner: '' @ [CHR 0x22] @ ''@vibecore'' @ [CHR 0x22]
     @ ''\<newline>status: stable''"

definition example_front_matter :: "string \<Rightarrow> string \<Rightarrow> jsval" where
  "example_front_matter tier stack =
     JObj [(''cartridge'', JBool True), (''name'', JStr ''Demo''), (''tier'', JStr tier),
           (''stack'', JStr stack), (''version'', JStr ''1.0.0''),
           (''owner'', JStr ''@vibecore''), (''status'', JStr ''stable'')]"

definition example_body :: string where
  "example_body =
     ''\<newline>\<newline># Demo\<newline>'' @
     ''\<newline>## Purpose\<newline>A page built with next and typescript.\<newline>'' @
     ''\<newline>## Stack Contract\<newline>next@15\<newline>'' @
     ''\<newline>## Development Style\<newline>Small steps.\<newline>'' @
     ''\<newline>## Inputs\<newline>A title.\<newline>'' @
     ''\<newline>## Outputs\<newline>One page.\<newline>'' @
     ''\<newline>## Guardrails\<newline>No backend.\<newline>'' @
     ''\<newline>## Steps the Agent Must Follow\<newline>1. Build the page.\<newline>'' @
     ''\<newline>## Quality Gates\<newline>```bash\<newline>npm run build\<newline>```\<newline>'' @
     ''\<newline>## Integration Points\<newline>None.\<newline>'' @
     ''\<newline>## Examples\<newline>```\<newline>npm run dev\<newline>```\<newline>'' @
     ''\<newline>## Version History\<newline>- 1.0.0\<newline>''"

definition example_document :: "string \<Rightarrow> string \<Rightarrow> string" where
  "example_document tier stack =
     ''---\<newline>'' @ example_header tier stack @ ''\<newline>---'' @ example_body"

text \<open>The one stack file of the example environment, which declares \<open>example_profile\<close>.\<close>

definition example_stack_file :: string where
  "example_stack_file =
     ''name: next-react-trpc-prisma\<newline>framework: next@15\<newline>language: typescript''
     @ ''\<newline>forbidden:\<newline>  - vue''"

text \<open>
  The example environment. Its parser knows the texts listed here and fails on any other
  text, with the reason js-yaml gives for an unclosed sequence (the real message goes on
  with the position and a snippet of the text). Its \<^verbatim>\<open>RegExp\<close> stands for the engine on the example documents: a source made of
  word characters is searched as a text, ignoring case; the other sources the scan
  builds all contain the word \<^verbatim>\<open>from\<close> or \<^verbatim>\<open>require\<close>, which occurs in no example
  document, and find nothing.
\<close>

definition example_yaml :: "string \<Rightarrow> exn + jsval" where
  "example_yaml text =
     (case map_of
        [(example_stack_file, example_profile),
         (example_header ''prototype'' ''next-react-trpc-prisma'',
            example_front_matter ''prototype'' ''next-react-trpc-prisma''),
         (example_header ''production'' ''next-react-trpc-prisma'',
            example_front_matter ''production'' ''next-react-trpc-prisma''),
         (example_header ''prototype'' ''constructor'',
            example_front_matter ''prototype'' ''constructor'')] text of
        Some v \<Rightarrow> Inr v
      | None \<Rightarrow> Inl ''unexpected end of the stream within a flow collection'')"

definition example_regexp :: "string \<Rightarrow> string \<Rightarrow> exn + (string \<Rightarrow> bool)" where
  "example_regexp source flags = Inr (\<lambda>s. list_all is_word source \<and> includes_ci s source)"

definition example_env :: env where
  "example_env =
     \<lparr>yaml_load = example_yaml,
      regexp = example_regexp,
      stacks_dir = Some [(''next-react-trpc-prisma.yml'', Inr example_stack_file)],
      files = map_of
        [(''prototype.md'', example_document ''prototype'' ''next-react-trpc-prisma''),
         (''production.md'', example_document ''production'' ''next-react-trpc-prisma''),
         (''constructor.md'', example_document ''prototype'' ''constructor''),
         (''blank-line.md'', ''\<newline>'' @ example_document ''prototype'' ''next-react-trpc-prisma''),
         (''broken.md'', ''---\<newline>cartridge: [true\<newline>---\<newline>\<newline># Demo\<newline>'')]\<rparr>"

text \<open>
  Two bodies for \<^verbatim>\<open>extractSection\<close>: one whose Integration Points heading mentions the
  Examples section, and one whose only heading has a title that contains the name
  \<^verbatim>\<open>Examples\<close> without starting with it.
\<close>

definition annotated_body :: string where
  "annotated_body =
     ''## Integration Points (see Examples)\<newline>Call the API.\<newline>'' @
     ''## Examples\<newline>```ts\<newline>run()\<newline>```\<newline>'' @
     ''## Version History\<newline>- 1.0.0''"

definition titled_body :: string where
  "titled_body = ''## More Examples\<newline>See the wiki.''"

text \<open>Bodies with sections out of order: three sections rotated, two sections swapped.\<close>

definition rotated_body :: string where
  "rotated_body = ''## Development Style\<newline>## Purpose\<newline>## Stack Contract''"

definition swapped_body :: string where
  "swapped_body = ''## Stack Contract\<newline>## Purpose''"

text \<open>A stacks directory in which two files declare the same identifier.\<close>

definition duplicate_env :: env where
  "duplicate_env =
     \<lparr>yaml_load = (\<lambda>text.
        case map_of
          [(''name: shared\<newline>framework: next'',
              JObj [(''name'', JStr ''shared''), (''framework'', JStr ''next'')]),
           (''name: shared\<newline>framework: remix'',
              JObj [(''name'', JStr ''shared''), (''framework'', JStr ''remix'')])] text of
          Some v \<Rightarrow> Inr v
        | None \<Rightarrow> Inl ''unexpected end of the stream within a flow collection''),
      regexp = example_regexp,
      stacks_dir = Some [(''first.yml'', Inr ''name: shared\<newline>framework: next''),
                         (''second.yml'', Inr ''name: shared\<newline>framework: remix'')],
      files = Map.empty\<rparr>"

text \<open>A stacks directory with two profiles of different identifiers.\<close>

definition pair_env :: env where
  "pair_env =
     \<lparr>yaml_load = (\<lambda>text.
        case map_of
          [(''name: alpha'', JObj [(''name'', JStr ''alpha'')]),
           (''name: beta'', JObj [(''name'', JStr ''beta'')])] text of
          Some v \<Rightarrow> Inr v
        | None \<Rightarrow> Inl ''unexpected end of the stream within a flow collection''),
      regexp = example_regexp,
      stacks_dir = Some [(''alpha.yml'', Inr ''name: alpha''), (''beta.yml'', Inr ''name: beta'')],
      files = Map.empty\<rparr>"

text \<open>The linter the constructor gives in the example environment.\<close>

definition example_linter :: linter where
  "example_linter =
     \<lparr>errors = [], warnings = [],
      stacks = [(''next-react-trpc-prisma'', example_profile)], stacks_proto = None\<rparr>"

section \<open>Properties\<close>

subsection \<open>The example documents evaluated\<close>

text \<open>
  Each check of \<^verbatim>\<open>lint\<close> on \<open>example_body\<close>, for any linter that holds the example
  registry: the structure check and the Quality Gates check find nothing, the compliance
  scan finds nothing, and the Examples check warns once for every fence marker.
\<close>

lemma example_loaded: "new_CartridgeLinter example_env = example_linter"
  by (simp add: new_CartridgeLinter_def loadStacks_def load_stack_def example_env_def
      example_yaml_def endsWith_def startsWith_def example_profile_def stacks_set_def
      put_own_def array_index_def is_digit_def example_linter_def example_stack_file_def)

lemma example_found: "foundSections example_body = REQUIRED_SECTIONS"
  by code_simp

lemma example_sections: "validateSections L example_body = L"
  by (simp add: validateSections_def orderedSections_def example_found)
     (simp add: REQUIRED_SECTIONS_def startsWith_def expectedIndex_def)

lemma example_quality_gates:
  "extractSection example_body ''Quality Gates'' = ''```bash\<newline>npm run build\<newline>```\<newline>''"
  by code_simp

lemma example_examples:
  "extractSection example_body ''Examples'' = ''```\<newline>npm run dev\<newline>```\<newline>''"
  by code_simp

lemma example_no_tier:
  "find (\<lambda>l. includes_str l ''tier:'') (split CHR ''\<newline>'' example_body) = None"
  by code_simp

lemma example_fences:
  "fence_matches ''```\<newline>npm run dev\<newline>```\<newline>'' = [True, True]"
  by code_simp

lemma example_gates: "validateQualityGates L example_body = (L, Inr ())"
  by (simp add: validateQualityGates_def example_quality_gates example_no_tier)
     (simp add: startsWith_def)

lemma example_fence_warnings:
  "validateExamples L example_body = warning (warning L untagged_message) untagged_message"
  by (simp add: validateExamples_def example_examples example_fences startsWith_def
      is_word_def is_digit_def)

lemma example_front:
  assumes "t \<in> set VALID_TIERS" and "s \<noteq> []" and "truthy (stacks_get L s)"
  shows "validateFrontMatter L (example_front_matter t s) = (L, Inr (JStr s))"
  using assms
  by (simp add: validateFrontMatter_def example_front_matter_def requiredFields_def field_of_def
      VALID_STATUSES_def semver_prefix_def is_digit_def startsWith_def Let_def)

lemma example_no_vue: "\<not> vue_pattern example_body"
  by code_simp

lemma example_mentions:
  "includes_ci example_body ''next''" "includes_ci example_body ''typescript''"
  by code_simp+

lemma example_registered:
  assumes "stacks L = stacks example_linter"
  shows "validateStackCompliance example_env L example_body (JStr ''next-react-trpc-prisma'') = (L, Inr ())"
  using assms
  by (simp add: validateStackCompliance_def stacks_get_def example_linter_def example_profile_def
      field_of_def check_term_def check_tech_def forbidden_patterns_def example_env_def
      example_regexp_def quote_class_def example_no_vue example_mentions is_word_def
      is_digit_def Let_def)

lemma example_inherited:
  assumes "stacks L = stacks example_linter" and "stacks_proto L = None"
  shows "validateStackCompliance example_env L example_body (JStr ''constructor'') = (L, Inr ())"
  using assms
  by (simp add: validateStackCompliance_def stacks_get_def example_linter_def example_profile_def
      field_of_def inherited_def object_prototype_names_def Let_def)

lemma example_checks:
  assumes "files example_env p = Some doc" and "frontMatterMatch doc = Some (h, n)"
    and "drop n doc = example_body" and "example_yaml h = Inr (example_front_matter t s)"
    and "t \<in> set VALID_TIERS"
    and "s = ''next-react-trpc-prisma'' \<or> s = ''constructor''"
    and "stacks L = stacks example_linter" and "stacks_proto L = None"
  shows "lint_checks example_env L p = warning (warning L untagged_message) untagged_message"
proof -
  have get: "truthy (stacks_get L s)"
    using assms(6-8)
    by (auto simp: stacks_get_def example_linter_def inherited_def object_prototype_names_def
        example_profile_def)
  have front: "validateFrontMatter L (example_front_matter t s) = (L, Inr (JStr s))"
    using assms(5,6) get by (intro example_front) auto
  have scan: "validateStackCompliance example_env L example_body (JStr s) = (L, Inr ())"
    using assms(6-8) example_registered example_inherited by blast
  have yaml: "yaml_load example_env h = Inr (example_front_matter t s)"
    using assms(4) by (simp add: example_env_def)
  show ?thesis
    by (simp add: lint_checks_def lint_try_def assms(1-3) yaml front example_sections scan
        example_gates example_fence_warnings)
qed

lemma example_prototype:
  "frontMatterMatch (example_document ''prototype'' ''next-react-trpc-prisma'')
     = Some (example_header ''prototype'' ''next-react-trpc-prisma'',
             length (example_header ''prototype'' ''next-react-trpc-prisma'') + 8)
   \<and> drop (length (example_header ''prototype'' ''next-react-trpc-prisma'') + 8)
        (example_document ''prototype'' ''next-react-trpc-prisma'') = example_body"
  by code_simp

lemma example_production:
  "frontMatterMatch (example_document ''production'' ''next-react-trpc-prisma'')
     = Some (example_header ''production'' ''next-react-trpc-prisma'',
             length (example_header ''production'' ''next-react-trpc-prisma'') + 8)
   \<and> drop (length (example_header ''production'' ''next-react-trpc-prisma'') + 8)
        (example_document ''production'' ''next-react-trpc-prisma'') = example_body"
  by code_simp

lemma example_constructor:
  "frontMatterMatch (example_document ''prototype'' ''constructor'')
     = Some (example_header ''prototype'' ''constructor'',
             length (example_header ''prototype'' ''constructor'') + 8)
   \<and> drop (length (example_header ''prototype'' ''constructor'') + 8)
        (example_document ''prototype'' ''constructor'') = example_body"
  by code_simp

lemma example_parsed:
  "example_yaml (example_header ''prototype'' ''next-react-trpc-prisma'')
     = Inr (example_front_matter ''prototype'' ''next-react-trpc-prisma'')"
  "example_yaml (example_header ''production'' ''next-react-trpc-prisma'')
     = Inr (example_front_matter ''production'' ''next-react-trpc-prisma'')"
  "example_yaml (example_header ''prototype'' ''constructor'')
     = Inr (example_front_matter ''prototype'' ''constructor'')"
  by (simp_all add: example_yaml_def example_header_def example_stack_file_def)

lemma example_prototype_checks:
  assumes "stacks L = stacks example_linter" and "stacks_proto L = None"
  shows "lint_checks example_env L ''prototype.md''
         = warning (warning L untagged_message) untagged_message"
  by (rule example_checks [OF _ conjunct1 [OF example_prototype]
        conjunct2 [OF example_prototype] example_parsed(1)])
     (use assms in \<open>simp_all add: example_env_def VALID_TIERS_def\<close>)

lemma example_production_checks:
  assumes "stacks L = stacks example_linter" and "stacks_proto L = None"
  shows "lint_checks example_env L ''production.md''
         = warning (warning L untagged_message) untagged_message"
  by (rule example_checks [OF _ conjunct1 [OF example_production]
        conjunct2 [OF example_production] example_parsed(2)])
     (use assms in \<open>simp_all add: example_env_def VALID_TIERS_def\<close>)

lemma example_constructor_checks:
  assumes "stacks L = stacks example_linter" and "stacks_proto L = None"
  shows "lint_checks example_env L ''constructor.md''
         = warning (warning L untagged_message) untagged_message"
  by (rule example_checks [OF _ conjunct1 [OF example_constructor]
        conjunct2 [OF example_constructor] example_parsed(3)])
     (use assms in \<open>simp_all add: example_env_def VALID_TIERS_def\<close>)

subsection \<open>A document without a header block\<close>

text \<open>
  Claim C10. The header block is recognised only at the very start of the text: when the
  text of an existing file does not begin with the marker line \<^verbatim>\<open>---\<close> at offset zero,
  the expression of \<^verbatim>\<open>lint\<close> does not match, and the call records the one Error
  \<^verbatim>\<open>Missing front matter\<close> and nothing else (no field, section, compliance or
  section-specific check touches the state, whatever the parser and the registry are)
  before \<^verbatim>\<open>report\<close> ends the process.
\<close>

theorem missing_front_matter:
  assumes "files E filePath = Some content" and "\<not> startsWith content ''---\<newline>''"
  shows "frontMatterMatch content = None
         \<and> lint E L filePath = (error L ''Missing front matter'', ProcessExit 1)"
  using assms
  by (simp add: frontMatterMatch_def lint_def lint_checks_def report_def error_def)

text \<open>A well-formed document behind one blank line.\<close>

theorem missing_front_matter_witness:
  "files example_env ''blank-line.md''
     = Some (''\<newline>'' @ example_document ''prototype'' ''next-react-trpc-prisma'')
   \<and> \<not> startsWith (''\<newline>'' @ example_document ''prototype'' ''next-react-trpc-prisma'') ''---\<newline>''
   \<and> lint example_env example_linter ''blank-line.md''
       = (example_linter\<lparr>errors := [\<lparr>message = ''Missing front matter'', line = None\<rparr>]\<rparr>,
          ProcessExit 1)"
proof -
  have f: "files example_env ''blank-line.md''
     = Some (''\<newline>'' @ example_document ''prototype'' ''next-react-trpc-prisma'')"
    by (simp add: example_env_def)
  have n: "\<not> startsWith (''\<newline>'' @ example_document ''prototype'' ''next-react-trpc-prisma'') ''---\<newline>''"
    by (simp add: startsWith_def)
  show ?thesis
    using f n missing_front_matter [OF f n, of example_linter]
    by (simp add: error_def example_linter_def)
qed

subsection \<open>Scenario A of the front-matter checks\<close>

text \<open>
  Claim C7 lists a header with \<^verbatim>\<open>cartridge: true\<close>, \<^verbatim>\<open>tier: prototype\<close>, a stack identifier
  that is not registered, \<^verbatim>\<open>version: 1.0\<close> (which the parser reads as the number 1) and
  \<^verbatim>\<open>status: stable\<close>, without an owner, and expects exactly three Errors. The header as
  listed has no name either, and every missing required field gets its Error: there are
  four. And with a name, the unregistered identifier \<^verbatim>\<open>constructor\<close> gets no Error for the
  stack: there are two.
\<close>

theorem scenario_A_literal_header:
  "validateFrontMatter example_linter
     (JObj [(''cartridge'', JBool True), (''tier'', JStr ''prototype''),
            (''stack'', JStr ''my-own-stack''), (''version'', JNum ''1''),
            (''status'', JStr ''stable'')])
   = (example_linter\<lparr>errors :=
         [\<lparr>message = ''Missing required front matter field: name'', line = None\<rparr>,
          \<lparr>message = ''Missing required front matter field: owner'', line = None\<rparr>,
          \<lparr>message = ''Unknown stack: my-own-stack. Available stacks: next-react-trpc-prisma'',
           line = None\<rparr>,
          \<lparr>message = ''Invalid version format: 1. Use semver (e.g., 1.0.0)'', line = None\<rparr>]\<rparr>,
      Inr (JStr ''my-own-stack''))
   \<and> validateFrontMatter example_linter
     (JObj [(''cartridge'', JBool True), (''name'', JStr ''Demo''), (''tier'', JStr ''prototype''),
            (''stack'', JStr ''constructor''), (''version'', JNum ''1''),
            (''status'', JStr ''stable'')])
   = (example_linter\<lparr>errors :=
         [\<lparr>message = ''Missing required front matter field: owner'', line = None\<rparr>,
          \<lparr>message = ''Invalid version format: 1. Use semver (e.g., 1.0.0)'', line = None\<rparr>]\<rparr>,
      Inr (JStr ''constructor''))"
  by (simp add: validateFrontMatter_def requiredFields_def field_of_def error_def
      VALID_TIERS_def VALID_STATUSES_def Object_keys_def stacks_get_def inherited_def
      object_prototype_names_def semver_prefix_def is_digit_def startsWith_def
      example_linter_def Let_def)

text \<open>
  Claim C7 as amended. The header of the scenario with a name in it (\<^verbatim>\<open>cartridge: true\<close>, a
  name, \<^verbatim>\<open>tier: prototype\<close>, \<^verbatim>\<open>version: 1.0\<close>, read as the number 1 or as the text,
  \<^verbatim>\<open>status: stable\<close>, no owner) and with a stack identifier that is a non-empty text, no
  key of the registry and no name inherited from \<^verbatim>\<open>Object.prototype\<close>, the prototype of
  the registry, makes \<^verbatim>\<open>validateFrontMatter\<close> record exactly three Errors (the missing
  owner, the unknown stack with the registered identifiers, the version format) and no
  Warning. The same header without the name gets a fourth Error, for the missing name,
  before the three.
\<close>

theorem scenario_A:
  assumes "sid \<noteq> []" and "sid \<notin> set (Object_keys L)"
    and "sid \<notin> set object_prototype_names" and "stacks_proto L = None"
    and "ver = JNum ''1'' \<or> ver = JStr ''1.0''"
  shows "validateFrontMatter L
           (JObj [(''cartridge'', JBool True), (''name'', nm), (''tier'', JStr ''prototype''),
                  (''stack'', JStr sid), (''version'', ver), (''status'', JStr ''stable'')])
         = (L\<lparr>errors := errors L @
               [\<lparr>message = ''Missing required front matter field: owner'', line = None\<rparr>,
                \<lparr>message = ''Unknown stack: '' @ sid @ ''. Available stacks: ''
                            @ join '', '' (Object_keys L), line = None\<rparr>,
                \<lparr>message = ''Invalid version format: '' @ toString ver
                            @ ''. Use semver (e.g., 1.0.0)'', line = None\<rparr>]\<rparr>,
            Inr (JStr sid))
     \<and> validateFrontMatter L
           (JObj [(''cartridge'', JBool True), (''tier'', JStr ''prototype''),
                  (''stack'', JStr sid), (''version'', ver), (''status'', JStr ''stable'')])
         = (L\<lparr>errors := errors L @
               [\<lparr>message = ''Missing required front matter field: name'', line = None\<rparr>,
                \<lparr>message = ''Missing required front matter field: owner'', line = None\<rparr>,
                \<lparr>message = ''Unknown stack: '' @ sid @ ''. Available stacks: ''
                            @ join '', '' (Object_keys L), line = None\<rparr>,
                \<lparr>message = ''Invalid version format: '' @ toString ver
                            @ ''. Use semver (e.g., 1.0.0)'', line = None\<rparr>]\<rparr>,
            Inr (JStr sid))"
proof -
  have own: "map_of (stacks L) sid = None"
    using assms(2) by (simp add: Object_keys_def map_of_eq_None_iff)
  have get: "stacks_get (L\<lparr>errors := es\<rparr>) sid = JUndefined" for es
    using own assms(3,4) by (simp add: stacks_get_def inherited_def)
  have ver: "truthy ver" "\<not> semver_prefix (toString ver)"
    using assms(5) by (auto simp: semver_prefix_def is_digit_def startsWith_def)
  have named: "validateFrontMatter L
           (JObj [(''cartridge'', JBool True), (''name'', nm), (''tier'', JStr ''prototype''),
                  (''stack'', JStr sid), (''version'', ver), (''status'', JStr ''stable'')])
         = (L\<lparr>errors := errors L @
               [\<lparr>message = ''Missing required front matter field: owner'', line = None\<rparr>,
                \<lparr>message = ''Unknown stack: '' @ sid @ ''. Available stacks: ''
                            @ join '', '' (Object_keys L), line = None\<rparr>,
                \<lparr>message = ''Invalid version format: '' @ toString ver
                            @ ''. Use semver (e.g., 1.0.0)'', line = None\<rparr>]\<rparr>,
            Inr (JStr sid))"
    using assms(1) ver get
    by (simp add: validateFrontMatter_def requiredFields_def field_of_def error_def
        VALID_TIERS_def VALID_STATUSES_def Object_keys_def Let_def)
  have unnamed: "validateFrontMatter L
           (JObj [(''cartridge'', JBool True), (''tier'', JStr ''prototype''),
                  (''stack'', JStr sid), (''version'', ver), (''status'', JStr ''stable'')])
         = (L\<lparr>errors := errors L @
               [\<lparr>message = ''Missing required front matter field: name'', line = None\<rparr>,
                \<lparr>message = ''Missing required front matter field: owner'', line = None\<rparr>,
                \<lparr>message = ''Unknown stack: '' @ sid @ ''. Available stacks: ''
                            @ join '', '' (Object_keys L), line = None\<rparr>,
                \<lparr>message = ''Invalid version format: '' @ toString ver
                            @ ''. Use semver (e.g., 1.0.0)'', line = None\<rparr>]\<rparr>,
            Inr (JStr sid))"
    using assms(1) ver get
    by (simp add: validateFrontMatter_def requiredFields_def field_of_def error_def
        VALID_TIERS_def VALID_STATUSES_def Object_keys_def Let_def)
  show ?thesis
    using named unnamed by (rule conjI)
qed

theorem scenario_A_witness:
  "validateFrontMatter example_linter
     (JObj [(''cartridge'', JBool True), (''name'', JStr ''Demo''), (''tier'', JStr ''prototype''),
            (''stack'', JStr ''my-own-stack''), (''version'', JNum ''1''),
            (''status'', JStr ''stable'')])
   = (example_linter\<lparr>errors :=
         [\<lparr>message = ''Missing required front matter field: owner'', line = None\<rparr>,
          \<lparr>message = ''Unknown stack: my-own-stack. Available stacks: next-react-trpc-prisma'',
           line = None\<rparr>,
          \<lparr>message = ''Invalid version format: 1. Use semver (e.g., 1.0.0)'', line = None\<rparr>]\<rparr>,
      Inr (JStr ''my-own-stack''))"
  using scenario_A [of "''my-own-stack''" example_linter "JNum ''1''" "JStr ''Demo''"]
  by (simp add: example_linter_def Object_keys_def object_prototype_names_def)

subsection \<open>A stack identifier that is an inherited property name\<close>

text \<open>
  Claim C1 says that every declared stack identifier that is no key of the registry gets
  an Error listing the registered identifiers. The registry is a plain object read with
  \<^verbatim>\<open>this.stacks[name]\<close>, so a name inherited from \<^verbatim>\<open>Object.prototype\<close> is found although
  \<^verbatim>\<open>Object.keys\<close> does not list it: the document that declares \<^verbatim>\<open>stack: constructor\<close>
  gets no Error at all, and is reported valid.
\<close>

theorem inherited_name_passes_for_stack:
  "''constructor'' \<notin> set (Object_keys (new_CartridgeLinter example_env))
   \<and> field_of (example_front_matter ''prototype'' ''constructor'') ''stack'' = JStr ''constructor''
   \<and> lint example_env (new_CartridgeLinter example_env) ''constructor.md''
     = (example_linter\<lparr>warnings := [\<lparr>message = untagged_message, line = None\<rparr>,
                                       \<lparr>message = untagged_message, line = None\<rparr>]\<rparr>,
        Returns (Report True []
                   [\<lparr>message = untagged_message, line = None\<rparr>,
                    \<lparr>message = untagged_message, line = None\<rparr>]))"
proof -
  have "lint_checks example_env example_linter ''constructor.md''
        = warning (warning example_linter untagged_message) untagged_message"
    by (rule example_constructor_checks) (simp_all add: example_linter_def)
  then show ?thesis
    unfolding lint_def example_loaded
    by (simp add: report_def warning_def example_linter_def Object_keys_def field_of_def
        example_front_matter_def)
qed

subsection \<open>Scenario B: one fenced block without a language\<close>

text \<open>
  Claim C6 expects exactly one Warning for a valid document whose Examples section holds
  one fenced block without a language. The loop of \<^verbatim>\<open>validateExamples\<close> matches every
  fence marker, the closing one as well, and no closing marker carries a language: the
  Report of the example document for the registered stack has no Error and two Warnings.
\<close>

theorem scenario_B_two_warnings:
  "lint example_env (new_CartridgeLinter example_env) ''prototype.md''
   = (example_linter\<lparr>warnings := [\<lparr>message = untagged_message, line = None\<rparr>,
                                     \<lparr>message = untagged_message, line = None\<rparr>]\<rparr>,
      Returns (Report True []
                 [\<lparr>message = untagged_message, line = None\<rparr>,
                  \<lparr>message = untagged_message, line = None\<rparr>]))"
proof -
  have "lint_checks example_env example_linter ''prototype.md''
        = warning (warning example_linter untagged_message) untagged_message"
    by (rule example_prototype_checks) (simp_all add: example_linter_def)
  then show ?thesis
    unfolding lint_def example_loaded
    by (simp add: report_def warning_def example_linter_def)
qed

subsection \<open>The tier the Quality-Gate check reads\<close>

text \<open>
  Claim C8 says that a document of tier \<^verbatim>\<open>production\<close> is warned about each of the
  commands \<^verbatim>\<open>lint\<close>, \<^verbatim>\<open>typecheck\<close> and \<^verbatim>\<open>test\<close> missing from its Quality Gates section.
  \<^verbatim>\<open>validateQualityGates\<close> looks for a line with \<^verbatim>\<open>tier:\<close> in the text it is given, and
  \<^verbatim>\<open>lint\<close> gives it the body, from which the header is cut off: the example document
  declares the tier \<^verbatim>\<open>production\<close>, its Quality Gates section names none of the three
  commands, and its Report holds no Warning about them.
\<close>

theorem production_tier_commands_unchecked:
  "field_of (example_front_matter ''production'' ''next-react-trpc-prisma'') ''tier''
     = JStr ''production''
   \<and> extractSection example_body ''Quality Gates'' = ''```bash\<newline>npm run build\<newline>```\<newline>''
   \<and> lint example_env (new_CartridgeLinter example_env) ''production.md''
     = (example_linter\<lparr>warnings := [\<lparr>message = untagged_message, line = None\<rparr>,
                                       \<lparr>message = untagged_message, line = None\<rparr>]\<rparr>,
        Returns (Report True []
                   [\<lparr>message = untagged_message, line = None\<rparr>,
                    \<lparr>message = untagged_message, line = None\<rparr>]))"
proof -
  have "lint_checks example_env example_linter ''production.md''
        = warning (warning example_linter untagged_message) untagged_message"
    by (rule example_production_checks) (simp_all add: example_linter_def)
  then show ?thesis
    unfolding lint_def example_loaded
    by (simp add: report_def warning_def example_linter_def field_of_def
        example_front_matter_def example_quality_gates)
qed

subsection \<open>Which heading starts a section\<close>

text \<open>
  Claim C9 describes \<^verbatim>\<open>extractSection\<close> as the text between the first heading whose
  title starts with the name and the next heading, and as empty (so that the dependent
  check is silent) without such a heading. The function takes every heading line that
  contains the name anywhere: in \<open>annotated_body\<close> the text of the Integration Points
  section is part of the result, and \<open>titled_body\<close>, which has no heading whose title
  starts with \<^verbatim>\<open>Examples\<close>, gets the Error of the Examples check.
\<close>

theorem extraction_by_containment:
  "extractSection annotated_body ''Examples''
     = ''Call the API.\<newline>```ts\<newline>run()\<newline>```''
   \<and> extractSection titled_body ''Examples'' = ''See the wiki.''
   \<and> validateExamples example_linter titled_body
       = error example_linter ''Examples section must include code blocks''"
proof -
  have a: "extractSection annotated_body ''Examples''
     = ''Call the API.\<newline>```ts\<newline>run()\<newline>```''"
    by code_simp
  have t: "extractSection titled_body ''Examples'' = ''See the wiki.''"
    by code_simp
  show ?thesis
    by (simp add: a t validateExamples_def startsWith_def)
qed

subsection \<open>A header that does not parse\<close>

lemma example_broken:
  "frontMatterMatch (''---\<newline>cartridge: [true\<newline>---\<newline>\<newline># Demo\<newline>'')
     = Some (''cartridge: [true'', 24)"
  by code_simp

lemma example_broken_read:
  "files example_env ''broken.md''
     = Some ''---\<newline>cartridge: [true\<newline>---\<newline>\<newline># Demo\<newline>''"
  "yaml_load example_env ''cartridge: [true''
     = Inl ''unexpected end of the stream within a flow collection''"
  by (simp_all add: example_env_def example_yaml_def example_header_def example_stack_file_def)

text \<open>
  Claim C3 says that after a parse failure the structure, compliance and section-specific
  checks still run on the body. They do not: the body of \<^verbatim>\<open>broken.md\<close> has no section,
  the structure check alone would report the Purpose section missing, and the call does
  not record that Error.
\<close>

theorem parse_failure_skips_sections:
  "\<lparr>message = ''Missing required section: ## Purpose'', line = None\<rparr>
     \<in> set (errors (validateSections example_linter
           (drop 24 ''---\<newline>cartridge: [true\<newline>---\<newline>\<newline># Demo\<newline>'')))
   \<and> \<lparr>message = ''Missing required section: ## Purpose'', line = None\<rparr>
     \<notin> set (errors (fst (lint example_env example_linter ''broken.md'')))"
proof -
  have found: "foundSections (drop 24 ''---\<newline>cartridge: [true\<newline>---\<newline>\<newline># Demo\<newline>'') = []"
    by code_simp
  have l: "lint_checks example_env example_linter ''broken.md''
       = error example_linter (''Invalid YAML in front matter: ''
           @ ''unexpected end of the stream within a flow collection'')"
    by (simp add: lint_checks_def lint_try_def example_broken_read example_broken
        del: append.simps)
  have s: "validateSections example_linter
             (drop 24 ''---\<newline>cartridge: [true\<newline>---\<newline>\<newline># Demo\<newline>'')
       = foldl (\<lambda>L section. error L (''Missing required section: ## '' @ section))
           example_linter REQUIRED_SECTIONS"
    unfolding validateSections_def orderedSections_def found by simp
  show ?thesis
    unfolding s lint_def fst_conv l
    by (simp add: REQUIRED_SECTIONS_def error_def example_linter_def)
qed

text \<open>
  Claim C3 as amended. When the header block is delimited and its text does not parse
  (the parser throws, or it returns a value that is no object, on which the field test
  throws), \<^verbatim>\<open>lint\<close> records one Error with the cause, and no check runs: that Error is
  the only finding the call adds.
\<close>

theorem parse_failure_stops_all_checks:
  assumes "files E filePath = Some content"
    and "frontMatterMatch content = Some (header, matched)"
    and "yaml_load E header = Inl cause
         \<or> (yaml_load E header = Inr v \<and> hasProp ''cartridge'' v = Inl cause)"
  shows "lint E L filePath
         = (error L (''Invalid YAML in front matter: '' @ cause), ProcessExit 1)"
  using assms
  by (auto simp: lint_def lint_checks_def lint_try_def validateFrontMatter_def report_def
      error_def)

theorem parse_failure_stops_all_checks_witness:
  "files example_env ''broken.md''
     = Some ''---\<newline>cartridge: [true\<newline>---\<newline>\<newline># Demo\<newline>''
   \<and> frontMatterMatch ''---\<newline>cartridge: [true\<newline>---\<newline>\<newline># Demo\<newline>''
       = Some (''cartridge: [true'', 24)
   \<and> yaml_load example_env ''cartridge: [true''
       = Inl ''unexpected end of the stream within a flow collection''
   \<and> lint example_env example_linter ''broken.md''
       = (example_linter\<lparr>errors :=
            [\<lparr>message = ''Invalid YAML in front matter: unexpected end of the stream within a flow collection'',
              line = None\<rparr>]\<rparr>, ProcessExit 1)"
  using example_broken_read example_broken
    parse_failure_stops_all_checks
      [OF example_broken_read(1) example_broken disjI1 [OF example_broken_read(2)], of example_linter]
  by (simp add: error_def example_linter_def)

subsection \<open>The order of sections\<close>

lemma findIndex_lower: "- 1 \<le> findIndex P xs"
  by (induction xs) (auto simp: Let_def)

lemma expectedIndex_lower: "\<not> expectedIndex s < - 1"
  using findIndex_lower [of "\<lambda>rs. startsWith s rs" REQUIRED_SECTIONS]
  by (simp add: expectedIndex_def)

lemma warnings_error [simp]: "warnings (error L m) = warnings L"
  by (simp add: error_def)

lemma warnings_warning [simp]:
  "warnings (warning L m) = warnings L @ [\<lparr>message = m, line = None\<rparr>]"
  by (simp add: warning_def)

lemma warnings_missing_loop:
  "warnings (foldl (\<lambda>L x. if P x then error L (f x) else L) L xs) = warnings L"
  by (induction xs arbitrary: L) simp_all

lemma order_loop_warnings:
  "warnings (order_loop L (expectedIndex x) xs)
   = warnings L @ map (\<lambda>s. \<lparr>message = order_message s, line = None\<rparr>) (backward_steps (x # xs))"
proof (induction xs arbitrary: L x)
  case Nil
  then show ?case by (simp add: backward_steps_def)
next
  case (Cons y ys)
  have "backward_steps (x # y # ys)
        = (if expectedIndex y < expectedIndex x then [y] else []) @ backward_steps (y # ys)"
    by (simp add: backward_steps_def)
  then show ?case
    using Cons.IH [of _ y] by simp
qed

lemma order_loop_start:
  "warnings (order_loop L (- 1) xs)
   = warnings L @ map (\<lambda>s. \<lparr>message = order_message s, line = None\<rparr>) (backward_steps xs)"
proof (cases xs)
  case Nil
  then show ?thesis by (simp add: backward_steps_def)
next
  case (Cons x ys)
  then show ?thesis
    using order_loop_warnings [of L x ys] by (simp add: expectedIndex_lower)
qed

lemma validateSections_warnings:
  "warnings (validateSections L content)
   = warnings L @ map (\<lambda>s. \<lparr>message = order_message s, line = None\<rparr>)
       (backward_steps (orderedSections content))"
  by (simp add: validateSections_def order_loop_start warnings_missing_loop)

lemma backward_steps_sorted:
  "sorted (map expectedIndex xs) \<Longrightarrow> backward_steps xs = []"
proof (induction xs)
  case Nil
  then show ?case by (simp add: backward_steps_def)
next
  case (Cons x xs)
  then show ?case
    by (cases xs) (auto simp: backward_steps_def)
qed

lemma backward_steps_append:
  "backward_steps (us @ v # vs) = backward_steps (us @ [v]) @ backward_steps (v # vs)"
proof (induction us)
  case Nil
  then show ?case by (simp add: backward_steps_def)
next
  case (Cons u us)
  then show ?case
    by (cases us) (auto simp: backward_steps_def)
qed

lemma backward_steps_swap:
  assumes "sorted (map expectedIndex (xs @ [a, b] @ ys))"
    and "expectedIndex a < expectedIndex b"
  shows "backward_steps (xs @ [b, a] @ ys) = [a]"
proof -
  have left: "sorted (map expectedIndex (xs @ [b]))"
    using assms(1) by (auto simp: sorted_append)
  have right: "sorted (map expectedIndex (a # ys))"
    using assms(1) by (auto simp: sorted_append)
  have "backward_steps (xs @ [b, a] @ ys)
        = backward_steps (xs @ [b]) @ backward_steps (b # a # ys)"
    using backward_steps_append [of xs b "a # ys"] by simp
  also have "backward_steps (b # a # ys) = [a] @ backward_steps (a # ys)"
    using assms(2) by (simp add: backward_steps_def)
  finally show ?thesis
    by (simp add: backward_steps_sorted [OF left] backward_steps_sorted [OF right])
qed

lemma rotated_sections:
  "orderedSections rotated_body = [''Development Style'', ''Purpose'', ''Stack Contract'']"
  by code_simp

lemma swapped_sections: "orderedSections swapped_body = [''Stack Contract'', ''Purpose'']"
  by code_simp

lemma example_indices:
  "expectedIndex ''Purpose'' = 0" "expectedIndex ''Stack Contract'' = 1"
  "expectedIndex ''Development Style'' = 2"
  by (simp_all add: expectedIndex_def REQUIRED_SECTIONS_def startsWith_def)

text \<open>
  Claim C2 compares each section with the running maximum of the expected indices. In
  \<open>rotated_body\<close> (Development Style, Purpose, Stack Contract) the rule of the claim flags
  Purpose and Stack Contract; the loop, which remembers the last index only, warns about
  Purpose alone.
\<close>

theorem running_maximum_counterexample:
  "running_maximum_flags (- 1) (orderedSections rotated_body) = [''Purpose'', ''Stack Contract'']
   \<and> warnings (validateSections example_linter rotated_body)
       = [\<lparr>message = order_message ''Purpose'', line = None\<rparr>]"
  by (simp add: rotated_sections example_indices validateSections_warnings backward_steps_def
      example_linter_def)

text \<open>
  Claim C2 as amended. A section of the filtered list gets an order Warning exactly when
  its expected index is below that of the section just before it. So sections found in
  canonical order get no order Warning, and a filtered list that is in canonical order
  but for two neighbouring sections that are swapped gets exactly one, which cites the
  section that is earlier in the canonical order and appears later.
\<close>

theorem order_warnings_follow_last_index:
  "warnings (validateSections L content)
     = warnings L @ map (\<lambda>s. \<lparr>message = order_message s, line = None\<rparr>)
         (backward_steps (orderedSections content))
   \<and> (sorted (map expectedIndex (orderedSections content))
        \<longrightarrow> warnings (validateSections L content) = warnings L)
   \<and> (orderedSections content = xs @ [b, a] @ ys
        \<and> sorted (map expectedIndex (xs @ [a, b] @ ys))
        \<and> expectedIndex a < expectedIndex b
        \<longrightarrow> warnings (validateSections L content)
            = warnings L @ [\<lparr>message = order_message a, line = None\<rparr>])"
  using backward_steps_sorted [of "orderedSections content"] backward_steps_swap [of xs a b ys]
  by (auto simp: validateSections_warnings)

theorem order_warnings_follow_last_index_witness:
  "warnings (validateSections example_linter example_body) = []
   \<and> orderedSections swapped_body = [] @ [''Stack Contract'', ''Purpose''] @ []
   \<and> sorted (map expectedIndex ([] @ [''Purpose'', ''Stack Contract''] @ []))
   \<and> expectedIndex ''Purpose'' < expectedIndex ''Stack Contract''
   \<and> warnings (validateSections example_linter swapped_body)
       = [\<lparr>message = order_message ''Purpose'', line = None\<rparr>]"
proof -
  have canonical: "sorted (map expectedIndex (orderedSections example_body))"
  proof -
    have "orderedSections example_body = REQUIRED_SECTIONS"
      by code_simp
    then show ?thesis
      by (simp add: expectedIndex_def REQUIRED_SECTIONS_def startsWith_def)
  qed
  have swapped: "orderedSections swapped_body = [] @ [''Stack Contract'', ''Purpose''] @ []
      \<and> sorted (map expectedIndex ([] @ [''Purpose'', ''Stack Contract''] @ []))
      \<and> expectedIndex ''Purpose'' < expectedIndex ''Stack Contract''"
    by (simp add: swapped_sections example_indices)
  have "warnings (validateSections example_linter example_body) = warnings example_linter"
    using order_warnings_follow_last_index [of example_linter example_body] canonical
    by blast
  moreover have "warnings (validateSections example_linter swapped_body)
      = warnings example_linter @ [\<lparr>message = order_message ''Purpose'', line = None\<rparr>]"
    using order_warnings_follow_last_index
      [of example_linter swapped_body "[]" "''Stack Contract''" "''Purpose''" "[]"] swapped
    by blast
  ultimately show ?thesis
    using swapped by (simp add: example_linter_def)
qed

subsection \<open>Findings stay in the linter\<close>

lemma prepend_error: "error (prepend es ws L) m = prepend es ws (error L m)"
  by (simp add: error_def prepend_def)

lemma prepend_warning: "warning (prepend es ws L) m = prepend es ws (warning L m)"
  by (simp add: warning_def prepend_def)

lemma prepend_if:
  "(if c then prepend es ws A else prepend es ws B) = prepend es ws (if c then A else B)"
  by simp

lemma stacks_get_prepend: "stacks_get (prepend es ws L) k = stacks_get L k"
  by (simp add: stacks_get_def prepend_def split: option.split)

lemma Object_keys_prepend: "Object_keys (prepend es ws L) = Object_keys L"
  by (simp add: Object_keys_def prepend_def)

lemma apfst_if: "apfst f (if c then x else y) = (if c then apfst f x else apfst f y)"
  by simp

lemmas prepend_simps =
  prepend_error prepend_warning prepend_if stacks_get_prepend Object_keys_prepend apfst_if

lemma foldl_prepend:
  assumes "\<And>L x. f (prepend es ws L) x = prepend es ws (f L x)"
  shows "foldl f (prepend es ws L) xs = prepend es ws (foldl f L xs)"
  by (induction xs arbitrary: L) (simp_all add: assms)

lemma for_each_prepend:
  assumes "\<And>L x. body (prepend es ws L) x = apfst (prepend es ws) (body L x)"
  shows "for_each body (prepend es ws L) xs = apfst (prepend es ws) (for_each body L xs)"
proof (induction xs arbitrary: L)
  case Nil
  then show ?case by simp
next
  case (Cons x xs)
  obtain L' r where step: "body L x = (L', r)"
    by (cases "body L x")
  then show ?case
    using Cons.IH [of L'] by (cases r) (simp_all add: assms)
qed

lemma required_loop_prepend:
  "foldl (\<lambda>L x. if P x then error L (f x) else L) (prepend es ws L) xs
   = prepend es ws (foldl (\<lambda>L x. if P x then error L (f x) else L) L xs)"
  by (rule foldl_prepend) (simp add: prepend_error)

lemma warning_loop_prepend:
  "foldl (\<lambda>L x. if P x then warning L (f x) else L) (prepend es ws L) xs
   = prepend es ws (foldl (\<lambda>L x. if P x then warning L (f x) else L) L xs)"
  by (rule foldl_prepend) (simp add: prepend_warning)

lemma validateFrontMatter_prepend:
  "validateFrontMatter (prepend es ws L) frontMatter
   = apfst (prepend es ws) (validateFrontMatter L frontMatter)"
proof (cases "hasProp ''cartridge'' frontMatter")
  case (Inl e)
  then show ?thesis by (simp add: validateFrontMatter_def)
next
  case (Inr b)
  show ?thesis
  proof (cases "field_of frontMatter ''owner''")
    case (JStr s)
    then show ?thesis
      unfolding validateFrontMatter_def Let_def Inr
      by (simp add: required_loop_prepend prepend_simps split del: if_split cong: if_cong)
  qed (simp_all add: validateFrontMatter_def Let_def Inr required_loop_prepend prepend_simps
        split del: if_split cong: if_cong)
qed

lemma order_loop_prepend:
  "order_loop (prepend es ws L) lastIndex xs = prepend es ws (order_loop L lastIndex xs)"
  by (induction xs arbitrary: L lastIndex) (simp_all add: prepend_warning)

lemma validateSections_prepend:
  "validateSections (prepend es ws L) content = prepend es ws (validateSections L content)"
  by (simp add: validateSections_def required_loop_prepend order_loop_prepend)

lemma validateQualityGates_prepend:
  "validateQualityGates (prepend es ws L) content
   = apfst (prepend es ws) (validateQualityGates L content)"
  by (simp add: validateQualityGates_def Let_def warning_loop_prepend prepend_simps
      split: option.split list.split split del: if_split cong: if_cong)

lemma validateExamples_prepend:
  "validateExamples (prepend es ws L) content = prepend es ws (validateExamples L content)"
proof -
  have "foldl (\<lambda>L untagged. if untagged then warning L untagged_message else L)
          (prepend es ws M) xs
        = prepend es ws
            (foldl (\<lambda>L untagged. if untagged then warning L untagged_message else L) M xs)"
    for M xs
    by (rule foldl_prepend) (simp add: prepend_warning)
  then show ?thesis
    by (simp add: validateExamples_def Let_def prepend_simps split del: if_split cong: if_cong)
qed

lemma check_term_prepend:
  "check_term E content stackName (prepend es ws L) t
   = apfst (prepend es ws) (check_term E content stackName L t)"
proof -
  have "foldl (\<lambda>L pattern. if pattern content then error L m else L) (prepend es ws M) xs
        = prepend es ws (foldl (\<lambda>L pattern. if pattern content then error L m else L) M xs)"
    for M m and xs :: "(string \<Rightarrow> bool) list"
    by (rule foldl_prepend) (simp add: prepend_error)
  then show ?thesis
    by (simp add: check_term_def Let_def prepend_simps split: sum.split
        split del: if_split cong: if_cong)
qed

lemma check_tech_prepend:
  "check_tech E content (prepend es ws L) tech
   = apfst (prepend es ws) (check_tech E content L tech)"
  by (simp add: check_tech_def Let_def prepend_simps split: sum.split
      split del: if_split cong: if_cong)

lemma validateStackCompliance_prepend:
  "validateStackCompliance E (prepend es ws L) content stackName
   = apfst (prepend es ws) (validateStackCompliance E L content stackName)"
proof -
  have terms: "for_each (check_term E content k) (prepend es ws M) xs
        = apfst (prepend es ws) (for_each (check_term E content k) M xs)" for M k xs
    by (rule for_each_prepend) (rule check_term_prepend)
  have techs: "for_each (check_tech E content) (prepend es ws M) xs
        = apfst (prepend es ws) (for_each (check_tech E content) M xs)" for M xs
    by (rule for_each_prepend) (rule check_tech_prepend)
  show ?thesis
  proof (cases "\<not> truthy stackName \<or> \<not> truthy (stacks_get L (toString stackName))")
    case True
    then show ?thesis
      by (auto simp: validateStackCompliance_def stacks_get_prepend)
  next
    case False
    define forbidden where "forbidden =
      (if truthy (field_of (stacks_get L (toString stackName)) ''forbidden'')
       then field_of (stacks_get L (toString stackName)) ''forbidden'' else JArr [])"
    show ?thesis
    proof (cases "iterate forbidden")
      case (Inl e)
      then show ?thesis
        using False
        by (simp add: validateStackCompliance_def stacks_get_prepend forbidden_def)
    next
      case (Inr ts)
      obtain L1 r where scan: "for_each (check_term E content (toString stackName)) L ts = (L1, r)"
        by (cases "for_each (check_term E content (toString stackName)) L ts")
      show ?thesis
        using False Inr scan
        by (cases r)
           (simp_all add: validateStackCompliance_def stacks_get_prepend forbidden_def
              terms techs Let_def)
    qed
  qed
qed

lemma lint_try_prepend:
  "lint_try E (prepend es ws L) header bodyContent
   = apfst (prepend es ws) (lint_try E L header bodyContent)"
  by (simp add: lint_try_def validateFrontMatter_prepend validateSections_prepend
      validateStackCompliance_prepend validateQualityGates_prepend validateExamples_prepend
      split: sum.split prod.split)

lemma lint_checks_prepend:
  "lint_checks E (prepend es ws L) filePath = prepend es ws (lint_checks E L filePath)"
  by (simp add: lint_checks_def lint_try_prepend prepend_error
      split: option.split sum.split prod.split)

text \<open>No check changes the registry.\<close>

lemma registry_error [simp]:
  "stacks (error L m) = stacks L" "stacks_proto (error L m) = stacks_proto L"
  by (simp_all add: error_def)

lemma registry_warning [simp]:
  "stacks (warning L m) = stacks L" "stacks_proto (warning L m) = stacks_proto L"
  by (simp_all add: warning_def)

lemma registry_if_error [simp]:
  "stacks (if c then error L m else L) = stacks L"
  "stacks_proto (if c then error L m else L) = stacks_proto L"
  by simp_all

lemma registry_if_warning [simp]:
  "stacks (if c then warning L m else L) = stacks L"
  "stacks_proto (if c then warning L m else L) = stacks_proto L"
  by simp_all

lemma registry_foldl:
  assumes "\<And>L x. stacks (f L x) = stacks L \<and> stacks_proto (f L x) = stacks_proto L"
  shows "stacks (foldl f L xs) = stacks L \<and> stacks_proto (foldl f L xs) = stacks_proto L"
  by (induction xs arbitrary: L) (simp_all add: assms)

lemma registry_error_loop:
  "stacks (foldl (\<lambda>L x. if P x then error L (f x) else L) L xs) = stacks L"
  "stacks_proto (foldl (\<lambda>L x. if P x then error L (f x) else L) L xs) = stacks_proto L"
  using registry_foldl [of "\<lambda>L x. if P x then error L (f x) else L" L xs] by simp_all

lemma registry_warning_loop:
  "stacks (foldl (\<lambda>L x. if P x then warning L (f x) else L) L xs) = stacks L"
  "stacks_proto (foldl (\<lambda>L x. if P x then warning L (f x) else L) L xs) = stacks_proto L"
  using registry_foldl [of "\<lambda>L x. if P x then warning L (f x) else L" L xs] by simp_all

lemma registry_for_each:
  assumes "\<And>L x. stacks (fst (body L x)) = stacks L
                 \<and> stacks_proto (fst (body L x)) = stacks_proto L"
  shows "stacks (fst (for_each body L xs)) = stacks L
         \<and> stacks_proto (fst (for_each body L xs)) = stacks_proto L"
proof (induction xs arbitrary: L)
  case Nil
  then show ?case by simp
next
  case (Cons x xs)
  obtain L' r where step: "body L x = (L', r)"
    by (cases "body L x")
  then show ?case
    using Cons.IH [of L'] assms [of L x] by (cases r) simp_all
qed

lemma registry_order_loop:
  "stacks (order_loop L lastIndex xs) = stacks L
   \<and> stacks_proto (order_loop L lastIndex xs) = stacks_proto L"
  by (induction xs arbitrary: L lastIndex) simp_all

lemma registry_validateFrontMatter:
  "stacks (fst (validateFrontMatter L frontMatter)) = stacks L
   \<and> stacks_proto (fst (validateFrontMatter L frontMatter)) = stacks_proto L"
proof (cases "hasProp ''cartridge'' frontMatter")
  case (Inl e)
  then show ?thesis by (simp add: validateFrontMatter_def)
next
  case (Inr b)
  show ?thesis
    by (cases "field_of frontMatter ''owner''")
       (simp_all add: validateFrontMatter_def Let_def Inr registry_error_loop
          if_distrib [of stacks] if_distrib [of stacks_proto] if_distrib [of fst]
          split del: if_split cong: if_cong)
qed

lemma registry_validateSections:
  "stacks (validateSections L content) = stacks L
   \<and> stacks_proto (validateSections L content) = stacks_proto L"
  by (simp add: validateSections_def registry_order_loop registry_error_loop)

lemma registry_validateQualityGates:
  "stacks (fst (validateQualityGates L content)) = stacks L
   \<and> stacks_proto (fst (validateQualityGates L content)) = stacks_proto L"
  by (simp add: validateQualityGates_def Let_def registry_warning_loop
      split: option.split list.split)

lemma registry_validateExamples:
  "stacks (validateExamples L content) = stacks L
   \<and> stacks_proto (validateExamples L content) = stacks_proto L"
proof (cases "extractSection content ''Examples'' = []")
  case True
  then show ?thesis by (simp add: validateExamples_def)
next
  case False
  then show ?thesis
    by (simp add: validateExamples_def Let_def registry_warning_loop split del: if_split)
qed

lemma registry_check_term:
  "stacks (fst (check_term E content stackName L t)) = stacks L
   \<and> stacks_proto (fst (check_term E content stackName L t)) = stacks_proto L"
  by (simp add: check_term_def Let_def registry_error_loop split: sum.split
      split del: if_split)

lemma registry_check_tech:
  "stacks (fst (check_tech E content L tech)) = stacks L
   \<and> stacks_proto (fst (check_tech E content L tech)) = stacks_proto L"
  by (simp add: check_tech_def Let_def split: sum.split split del: if_split cong: if_cong)

lemma registry_validateStackCompliance:
  "stacks (fst (validateStackCompliance E L content stackName)) = stacks L
   \<and> stacks_proto (fst (validateStackCompliance E L content stackName)) = stacks_proto L"
proof (cases "\<not> truthy stackName \<or> \<not> truthy (stacks_get L (toString stackName))")
  case True
  then show ?thesis
    by (auto simp: validateStackCompliance_def)
next
  case False
  define forbidden where "forbidden =
    (if truthy (field_of (stacks_get L (toString stackName)) ''forbidden'')
     then field_of (stacks_get L (toString stackName)) ''forbidden'' else JArr [])"
  show ?thesis
  proof (cases "iterate forbidden")
    case (Inl e)
    then show ?thesis
      using False by (simp add: validateStackCompliance_def forbidden_def)
  next
    case (Inr ts)
    obtain L1 r where scan: "for_each (check_term E content (toString stackName)) L ts = (L1, r)"
      by (cases "for_each (check_term E content (toString stackName)) L ts")
    have one: "stacks L1 = stacks L \<and> stacks_proto L1 = stacks_proto L"
      using registry_for_each [of "check_term E content (toString stackName)" L ts]
        registry_check_term scan by simp
    have two: "stacks (fst (for_each (check_tech E content) L1 xs)) = stacks L1
        \<and> stacks_proto (fst (for_each (check_tech E content) L1 xs)) = stacks_proto L1" for xs
      by (rule registry_for_each) (rule registry_check_tech)
    show ?thesis
      using False Inr scan one two
      by (cases r) (simp_all add: validateStackCompliance_def forbidden_def Let_def)
  qed
qed

lemma registry_lint_try:
  "stacks (fst (lint_try E L header bodyContent)) = stacks L
   \<and> stacks_proto (fst (lint_try E L header bodyContent)) = stacks_proto L"
proof (cases "yaml_load E header")
  case (Inl e)
  then show ?thesis by (simp add: lint_try_def)
next
  case (Inr frontMatter)
  obtain L1 r1 where front: "validateFrontMatter L frontMatter = (L1, r1)"
    by (cases "validateFrontMatter L frontMatter")
  have one: "stacks L1 = stacks L \<and> stacks_proto L1 = stacks_proto L"
    using registry_validateFrontMatter [of L frontMatter] front by simp
  show ?thesis
  proof (cases r1)
    case (Inl e)
    then show ?thesis
      using Inr front one by (simp add: lint_try_def)
  next
    case stack: (Inr stackName)
    obtain L2 r2 where scan:
      "validateStackCompliance E (validateSections L1 bodyContent) bodyContent stackName = (L2, r2)"
      by (cases "validateStackCompliance E (validateSections L1 bodyContent) bodyContent stackName")
    have two: "stacks L2 = stacks L \<and> stacks_proto L2 = stacks_proto L"
      using registry_validateStackCompliance [of E "validateSections L1 bodyContent" bodyContent stackName]
        registry_validateSections [of L1 bodyContent] scan one by simp
    obtain L3 r3 where gates: "validateQualityGates L2 bodyContent = (L3, r3)"
      by (cases "validateQualityGates L2 bodyContent")
    have three: "stacks L3 = stacks L \<and> stacks_proto L3 = stacks_proto L"
      using registry_validateQualityGates [of L2 bodyContent] gates two by simp
    show ?thesis
      using Inr front stack scan gates one two three registry_validateExamples [of L3 bodyContent]
      by (cases r2; cases r3) (simp_all add: lint_try_def)
  qed
qed

lemma registry_lint_checks:
  "stacks (lint_checks E L filePath) = stacks L
   \<and> stacks_proto (lint_checks E L filePath) = stacks_proto L"
proof (cases "files E filePath")
  case None
  then show ?thesis by (simp add: lint_checks_def)
next
  case (Some content)
  show ?thesis
  proof (cases "frontMatterMatch content")
    case None
    then show ?thesis using Some by (simp add: lint_checks_def)
  next
    case match: (Some m)
    obtain header matched where m: "m = (header, matched)"
      by (cases m)
    obtain L1 r where run: "lint_try E L header (drop matched content) = (L1, r)"
      by (cases "lint_try E L header (drop matched content)")
    then show ?thesis
      using Some match m registry_lint_try [of E L header "drop matched content"]
      by (cases r) (simp_all add: lint_checks_def)
  qed
qed

text \<open>
  Claim C4 says that the second validation of a text gives the Report of the first, no
  state being carried over between the two calls. The lists of findings are fields of
  the linter, set up by the constructor and never emptied by \<^verbatim>\<open>lint\<close>: the second call
  of \<^verbatim>\<open>lint\<close> on the linter of the first returns another Report.
\<close>

theorem second_lint_differs:
  "snd (lint example_env (fst (lint example_env example_linter ''prototype.md'')) ''prototype.md'')
   \<noteq> snd (lint example_env example_linter ''prototype.md'')"
proof -
  have first: "lint_checks example_env example_linter ''prototype.md''
        = warning (warning example_linter untagged_message) untagged_message"
    by (rule example_prototype_checks) (simp_all add: example_linter_def)
  have second: "lint_checks example_env
          (warning (warning example_linter untagged_message) untagged_message) ''prototype.md''
        = warning (warning (warning (warning example_linter untagged_message) untagged_message)
            untagged_message) untagged_message"
    by (rule example_prototype_checks) (simp_all add: example_linter_def warning_def)
  show ?thesis
    unfolding lint_def fst_conv snd_conv first second
    by (simp add: report_def warning_def example_linter_def)
qed

text \<open>
  Claim C4 as amended. The only state a validation carries over is the linter's lists of
  findings: a call on a linter that already holds findings leaves exactly those
  findings followed by the ones the call leaves on the linter without them. So two
  linters with the same registry and no findings give the same Report for the same
  text, and after the second call on one linter the findings of the first call stand
  twice in its lists.
\<close>

theorem findings_are_carried_over:
  "lint_checks E (prepend es ws L) filePath = prepend es ws (lint_checks E L filePath)
   \<and> (errors L = [] \<and> warnings L = []
        \<longrightarrow> lint_checks E (lint_checks E L filePath) filePath
            = prepend (errors (lint_checks E L filePath)) (warnings (lint_checks E L filePath))
                (lint_checks E L filePath))"
proof -
  have "lint_checks E (lint_checks E L filePath) filePath
        = prepend (errors (lint_checks E L filePath)) (warnings (lint_checks E L filePath))
            (lint_checks E L filePath)"
    if fresh: "errors L = []" "warnings L = []"
  proof -
    define L1 where "L1 = lint_checks E L filePath"
    have "L1 = prepend (errors L1) (warnings L1) L"
      using registry_lint_checks [of E L filePath] fresh
      by (simp add: prepend_def L1_def)
    then have "lint_checks E L1 filePath
               = lint_checks E (prepend (errors L1) (warnings L1) L) filePath"
      by simp
    also have "\<dots> = prepend (errors L1) (warnings L1) L1"
      by (simp only: lint_checks_prepend L1_def)
    finally show ?thesis
      by (simp only: L1_def)
  qed
  then show ?thesis
    by (simp add: lint_checks_prepend)
qed

theorem findings_are_carried_over_witness:
  "errors example_linter = [] \<and> warnings example_linter = []
   \<and> warnings (lint_checks example_env example_linter ''prototype.md'')
       = [\<lparr>message = untagged_message, line = None\<rparr>, \<lparr>message = untagged_message, line = None\<rparr>]
   \<and> warnings (lint_checks example_env
         (lint_checks example_env example_linter ''prototype.md'') ''prototype.md'')
       = [\<lparr>message = untagged_message, line = None\<rparr>, \<lparr>message = untagged_message, line = None\<rparr>,
          \<lparr>message = untagged_message, line = None\<rparr>, \<lparr>message = untagged_message, line = None\<rparr>]"
proof -
  have fresh: "errors example_linter = [] \<and> warnings example_linter = []"
    by (simp add: example_linter_def)
  have first: "lint_checks example_env example_linter ''prototype.md''
        = warning (warning example_linter untagged_message) untagged_message"
    by (rule example_prototype_checks) (simp_all add: example_linter_def)
  have "lint_checks example_env
          (lint_checks example_env example_linter ''prototype.md'') ''prototype.md''
        = prepend (errors (lint_checks example_env example_linter ''prototype.md''))
            (warnings (lint_checks example_env example_linter ''prototype.md''))
            (lint_checks example_env example_linter ''prototype.md'')"
    using findings_are_carried_over [of example_env "[]" "[]" example_linter "''prototype.md''"]
      fresh by blast
  then show ?thesis
    using fresh by (simp add: first prepend_def warning_def)
qed

subsection \<open>Loading the registry\<close>

lemma map_of_put_own: "map_of (put_own ps k v) = (map_of ps)(k \<mapsto> v)"
proof (cases "k \<in> fst ` set ps")
  case True
  have "map_of (map (\<lambda>p. if fst p = k then (k, v) else p) ps) x
        = (if x = k then map_option (\<lambda>_. v) (map_of ps k) else map_of ps x)" for x
    by (induction ps) auto
  moreover obtain w where "map_of ps k = Some w"
    using True by (metis domD dom_map_of_conv_image_fst)
  ultimately have "map_of (map (\<lambda>p. if fst p = k then (k, v) else p) ps) = (map_of ps)(k \<mapsto> v)"
    by (auto simp: fun_eq_iff)
  then show ?thesis
    using True by (simp add: put_own_def)
next
  case False
  have fresh: "map_of (takeWhile P ps) k = None" for P
    using False set_takeWhileD [of _ P ps]
    by (force simp: map_of_eq_None_iff)
  have ins: "map_of (takeWhile P ps @ [(k, v)] @ dropWhile P ps) = (map_of ps)(k \<mapsto> v)" for P
  proof
    fix x
    have "map_of ps x = map_of (takeWhile P ps @ dropWhile P ps) x"
      by simp
    then show "map_of (takeWhile P ps @ [(k, v)] @ dropWhile P ps) x = ((map_of ps)(k \<mapsto> v)) x"
      using fresh [of P]
      by (auto simp: map_add_def simp del: takeWhile_dropWhile_id split: option.splits)
  qed
  have "map_of ps k = None"
    using False by (simp add: map_of_eq_None_iff)
  then have app: "map_of (ps @ [(k, v)]) = (map_of ps)(k \<mapsto> v)"
    by (auto simp: fun_eq_iff map_add_def split: option.splits)
  show ?thesis
    using False ins app by (simp add: put_own_def split: option.split del: map_of_append)
qed

lemma keys_put_own: "set (map fst (put_own ps k v)) = insert k (set (map fst ps))"
proof -
  have "dom (map_of (put_own ps k v)) = insert k (dom (map_of ps))"
    by (simp add: map_of_put_own)
  then show ?thesis
    by (simp add: dom_map_of_conv_image_fst)
qed

lemma distinct_put_own:
  assumes "distinct (map fst ps)"
  shows "distinct (map fst (put_own ps k v))"
proof (cases "k \<in> fst ` set ps")
  case True
  have same: "map (fst \<circ> (\<lambda>p. if fst p = k then (k, v) else p)) ps = map fst ps"
    by (induction ps) auto
  show ?thesis
    using True assms by (simp add: put_own_def same)
next
  case False
  have parts: "distinct (map fst (takeWhile P ps) @ map fst (dropWhile P ps))" for P
    using assms by (metis map_append takeWhile_dropWhile_id)
  have "distinct (map fst (takeWhile P ps @ [(k, v)] @ dropWhile P ps))" for P
    using parts [of P] False set_takeWhileD [of _ P ps] set_dropWhileD [of _ P ps]
    by (auto simp: image_iff)
  then show ?thesis
    using False assms by (simp add: put_own_def split: option.split)
qed

lemma load_stack_declared:
  assumes "declared E entry = Some (n, v)" and "n \<noteq> ''__proto__''"
  shows "load_stack E L entry = L\<lparr>stacks := put_own (stacks L) n v\<rparr>"
  using assms
  by (auto simp: load_stack_def declared_def stacks_set_def Let_def
      split: sum.splits jsval.splits option.splits)

lemma load_all_declared:
  assumes "\<forall>entry\<in>set entries. declared E entry \<noteq> None
             \<and> map_option fst (declared E entry) \<noteq> Some ''__proto__''"
  shows "errors (foldl (load_stack E) L entries) = errors L
    \<and> map_of (stacks (foldl (load_stack E) L entries))
        = map_of (rev (declarations E entries) @ stacks L)
    \<and> (distinct (map fst (stacks L))
         \<longrightarrow> distinct (map fst (stacks (foldl (load_stack E) L entries))))"
  using assms
proof (induction entries arbitrary: L)
  case Nil
  then show ?case by (simp add: declarations_def)
next
  case (Cons entry entries)
  then obtain n v where d: "declared E entry = Some (n, v)" and n: "n \<noteq> ''__proto__''"
    by (cases "declared E entry") auto
  have step: "load_stack E L entry = L\<lparr>stacks := put_own (stacks L) n v\<rparr>"
    by (rule load_stack_declared [OF d n])
  have decl: "declarations E (entry # entries) = (n, v) # declarations E entries"
    by (simp add: declarations_def d)
  have rest: "\<forall>entry\<in>set entries. declared E entry \<noteq> None
             \<and> map_option fst (declared E entry) \<noteq> Some ''__proto__''"
    using Cons.prems by simp
  show ?case
    using Cons.IH [OF rest, of "L\<lparr>stacks := put_own (stacks L) n v\<rparr>"]
    by (simp add: step decl map_of_put_own distinct_put_own)
qed

lemma length_declarations:
  "\<forall>entry\<in>set entries. declared E entry \<noteq> None
   \<Longrightarrow> length (declarations E entries) = length entries"
  by (induction entries) (auto simp: declarations_def)

lemma pair_declared:
  "declared pair_env (''alpha.yml'', Inr ''name: alpha'') = Some (''alpha'', JObj [(''name'', JStr ''alpha'')])"
  "declared pair_env (''beta.yml'', Inr ''name: beta'') = Some (''beta'', JObj [(''name'', JStr ''beta'')])"
  by (simp_all add: declared_def pair_env_def)

text \<open>
  Claim C5 says that loading two files that declare the same identifier is an error.
  \<^verbatim>\<open>loadStacks\<close> assigns each profile to its name and checks nothing: two such files
  load without an Error, and the profile of the second replaces that of the first.
\<close>

theorem duplicate_identifier_counterexample:
  "declarations duplicate_env
     [(''first.yml'', Inr ''name: shared\<newline>framework: next''),
      (''second.yml'', Inr ''name: shared\<newline>framework: remix'')]
     = [(''shared'', JObj [(''name'', JStr ''shared''), (''framework'', JStr ''next'')]),
        (''shared'', JObj [(''name'', JStr ''shared''), (''framework'', JStr ''remix'')])]
   \<and> new_CartridgeLinter duplicate_env
     = \<lparr>errors = [], warnings = [],
        stacks = [(''shared'', JObj [(''name'', JStr ''shared''), (''framework'', JStr ''remix'')])],
        stacks_proto = None\<rparr>"
  by (simp add: declarations_def declared_def duplicate_env_def new_CartridgeLinter_def
      loadStacks_def load_stack_def endsWith_def startsWith_def stacks_set_def put_own_def
      array_index_def is_digit_def)

text \<open>
  Claim C5 as amended. When every file of the stacks directory is a stack file that
  parses to a mapping with a text as name (other than \<^verbatim>\<open>__proto__\<close>), loading records
  no Error, the keys of the registry are the declared identifiers, each once, and every
  identifier maps to the profile of the last file that declares it; with pairwise
  different identifiers the registry has as many entries as there are files.
\<close>

theorem registry_of_declared_files:
  assumes "stacks_dir E = Some entries"
    and "\<forall>entry\<in>set entries. endsWith (fst entry) ''.yml'' \<and> declared E entry \<noteq> None
           \<and> map_option fst (declared E entry) \<noteq> Some ''__proto__''"
  shows "errors (new_CartridgeLinter E) = []
    \<and> distinct (Object_keys (new_CartridgeLinter E))
    \<and> set (Object_keys (new_CartridgeLinter E)) = set (map fst (declarations E entries))
    \<and> map_of (stacks (new_CartridgeLinter E)) = map_of (rev (declarations E entries))
    \<and> (distinct (map fst (declarations E entries))
         \<longrightarrow> length (Object_keys (new_CartridgeLinter E)) = length entries)"
proof -
  define L0 where "L0 = \<lparr>errors = [], warnings = [], stacks = [], stacks_proto = None\<rparr>"
  have all: "filter (\<lambda>entry. endsWith (fst entry) ''.yml'') entries = entries"
    using assms(2) by (simp add: filter_id_conv)
  have new: "new_CartridgeLinter E = foldl (load_stack E) L0 entries"
    by (simp add: new_CartridgeLinter_def loadStacks_def assms(1) all L0_def)
  have valid: "\<forall>entry\<in>set entries. declared E entry \<noteq> None
             \<and> map_option fst (declared E entry) \<noteq> Some ''__proto__''"
    using assms(2) by simp
  note loaded = load_all_declared [OF valid, of L0]
  have errs: "errors (new_CartridgeLinter E) = []"
    using loaded by (simp add: new L0_def)
  have maps: "map_of (stacks (new_CartridgeLinter E)) = map_of (rev (declarations E entries))"
    using loaded by (simp add: new L0_def)
  have dist: "distinct (Object_keys (new_CartridgeLinter E))"
    using loaded by (simp add: new L0_def Object_keys_def)
  have "dom (map_of (stacks (new_CartridgeLinter E))) = dom (map_of (rev (declarations E entries)))"
    by (simp only: maps)
  then have keys: "set (Object_keys (new_CartridgeLinter E)) = set (map fst (declarations E entries))"
    by (simp add: dom_map_of_conv_image_fst Object_keys_def)
  have "length (Object_keys (new_CartridgeLinter E)) = length entries"
    if "distinct (map fst (declarations E entries))"
  proof -
    have "length (Object_keys (new_CartridgeLinter E)) = card (set (Object_keys (new_CartridgeLinter E)))"
      using dist by (simp add: distinct_card)
    also have "\<dots> = length (map fst (declarations E entries))"
      using that by (simp only: keys distinct_card)
    finally show ?thesis
      using valid by (simp add: length_declarations)
  qed
  then show ?thesis
    using errs maps dist keys by blast
qed

theorem registry_of_declared_files_witness:
  "stacks_dir pair_env = Some [(''alpha.yml'', Inr ''name: alpha''), (''beta.yml'', Inr ''name: beta'')]
   \<and> declarations pair_env [(''alpha.yml'', Inr ''name: alpha''), (''beta.yml'', Inr ''name: beta'')]
       = [(''alpha'', JObj [(''name'', JStr ''alpha'')]), (''beta'', JObj [(''name'', JStr ''beta'')])]
   \<and> errors (new_CartridgeLinter pair_env) = []
   \<and> set (Object_keys (new_CartridgeLinter pair_env)) = {''alpha'', ''beta''}
   \<and> length (Object_keys (new_CartridgeLinter pair_env)) = 2
   \<and> map_of (stacks (new_CartridgeLinter pair_env)) ''beta'' = Some (JObj [(''name'', JStr ''beta'')])"
proof -
  have dir: "stacks_dir pair_env
      = Some [(''alpha.yml'', Inr ''name: alpha''), (''beta.yml'', Inr ''name: beta'')]"
    by (simp add: pair_env_def)
  have valid: "\<forall>entry\<in>set [(''alpha.yml'', Inr ''name: alpha''), (''beta.yml'', Inr ''name: beta'')].
      endsWith (fst entry) ''.yml'' \<and> declared pair_env entry \<noteq> None
      \<and> map_option fst (declared pair_env entry) \<noteq> Some ''__proto__''"
    by (simp add: pair_declared endsWith_def startsWith_def)
  have decls: "declarations pair_env [(''alpha.yml'', Inr ''name: alpha''), (''beta.yml'', Inr ''name: beta'')]
       = [(''alpha'', JObj [(''name'', JStr ''alpha'')]), (''beta'', JObj [(''name'', JStr ''beta'')])]"
    by (simp add: declarations_def pair_declared)
  show ?thesis
    using registry_of_declared_files [OF dir valid] dir
    by (simp add: decls)
qed

end
